theory Spec2Isabelle
  imports Main "HOL-Library.AList"
begin

section \<open>The real-time connection and signalling handlers of socketHandler.js\<close>

text \<open>
  The module keeps its state in a \<open>UserConnectionManager\<close> (three JavaScript maps), in
  two maps of the closure of \<open>setupSocketHandlers\<close> (\<open>userCache\<close>, \<open>activeConnections\<close>)
  and, per connection, in the closure of the \<open>connection\<close> callback
  (\<open>messageTimestamps\<close>, \<open>typingTimeouts\<close>). Every handler is modelled as a function that
  takes the pieces of state it reads, and returns the events it emits together with the
  pieces it writes.

  Identifiers (user, socket, room and project ids) and message contents are JavaScript
  strings, modelled as \<open>string\<close>: one \<open>char\<close> stands for one code unit (of the
  values a \<open>char\<close> has, 0 to 255). A payload field that may be absent is a
  \<open>string option\<close>, \<open>None\<close> being \<open>undefined\<close>; payload fields of other types than
  string are not modelled. Times are the milliseconds of \<open>Date.now()\<close>, as \<open>int\<close>.
\<close>

type_synonym user_id = string
type_synonym socket_id = string
type_synonym room_name = string

subsection \<open>JavaScript values: truthiness, strings, sets\<close>

text \<open>A string is falsy exactly when it is empty; \<open>undefined\<close> is falsy.\<close>

definition truthy :: "string \<Rightarrow> bool" where
  "truthy s \<longleftrightarrow> s \<noteq> []"

definition truthy_opt :: "string option \<Rightarrow> bool" where
  "truthy_opt v = (case v of None \<Rightarrow> False | Some s \<Rightarrow> truthy s)"

text \<open>\<open>s.startsWith(p)\<close>.\<close>

definition startsWith :: "string \<Rightarrow> string \<Rightarrow> bool" where
  "startsWith s p \<longleftrightarrow> take (length p) s = p"

text \<open>\<open>s.replace(p, '')\<close> with a string pattern: the first occurrence of \<open>p\<close> is removed.\<close>

fun replace_first :: "string \<Rightarrow> string \<Rightarrow> string" where
  "replace_first p [] = []"
| "replace_first p (c # cs) =
     (if startsWith (c # cs) p then drop (length p) (c # cs) else c # replace_first p cs)"

text \<open>
  A JavaScript \<open>Set\<close> is a list without repetition in insertion order (the order in
  which \<open>forEach\<close> visits it): \<open>add\<close> appends an element that is not yet there,
  \<open>delete\<close> removes it, \<open>size\<close> is the length.
\<close>

definition Set_add :: "'a \<Rightarrow> 'a list \<Rightarrow> 'a list" where
  "Set_add x xs = (if x \<in> set xs then xs else xs @ [x])"

definition Set_delete :: "'a \<Rightarrow> 'a list \<Rightarrow> 'a list" where
  "Set_delete x xs = filter (\<lambda>y. y \<noteq> x) xs"

definition Set_has :: "'a list \<Rightarrow> 'a \<Rightarrow> bool" where
  "Set_has xs x \<longleftrightarrow> x \<in> set xs"

subsection \<open>UserConnectionManager\<close>

record registry =
  userSockets :: "user_id \<rightharpoonup> socket_id list"
  socketUsers :: "socket_id \<rightharpoonup> user_id"
  socketRooms :: "socket_id \<rightharpoonup> room_name list"

definition new_registry :: registry where
  "new_registry = \<lparr>userSockets = Map.empty, socketUsers = Map.empty, socketRooms = Map.empty\<rparr>"

definition addConnection :: "user_id \<Rightarrow> socket_id \<Rightarrow> registry \<Rightarrow> registry" where
  "addConnection userId socketId r =
     (let sockets = (case userSockets r userId of None \<Rightarrow> [] | Some s \<Rightarrow> s)
      in r\<lparr>userSockets := (userSockets r)(userId \<mapsto> Set_add socketId sockets),
            socketUsers := (socketUsers r)(socketId \<mapsto> userId),
            socketRooms := (socketRooms r)(socketId \<mapsto> [])\<rparr>)"

definition addRoom :: "socket_id \<Rightarrow> room_name \<Rightarrow> registry \<Rightarrow> registry" where
  "addRoom socketId room r =
     (let rooms = (case socketRooms r socketId of None \<Rightarrow> [] | Some s \<Rightarrow> s)
      in r\<lparr>socketRooms := (socketRooms r)(socketId \<mapsto> Set_add room rooms)\<rparr>)"

definition removeConnection :: "socket_id \<Rightarrow> registry \<Rightarrow> registry" where
  "removeConnection socketId r =
     (let r1 =
        (case socketUsers r socketId of
           None \<Rightarrow> r
         | Some userId \<Rightarrow>
             if truthy userId then
               (case userSockets r userId of
                  None \<Rightarrow> r
                | Some sockets \<Rightarrow>
                    (let sockets' = Set_delete socketId sockets
                     in if length sockets' = 0
                        then r\<lparr>userSockets := (userSockets r)(userId := None)\<rparr>
                        else r\<lparr>userSockets := (userSockets r)(userId \<mapsto> sockets')\<rparr>))
             else r)
      in r1\<lparr>socketUsers := (socketUsers r1)(socketId := None),
             socketRooms := (socketRooms r1)(socketId := None)\<rparr>)"

definition getRooms :: "socket_id \<Rightarrow> registry \<Rightarrow> room_name list" where
  "getRooms socketId r = (case socketRooms r socketId of None \<Rightarrow> [] | Some s \<Rightarrow> s)"

definition getUserSocketCount :: "user_id \<Rightarrow> registry \<Rightarrow> nat" where
  "getUserSocketCount userId r = (case userSockets r userId of None \<Rightarrow> 0 | Some s \<Rightarrow> length s)"

subsection \<open>Emitted events\<close>

text \<open>
  Where an event goes: \<open>socket.emit\<close> reaches that one connection, \<open>socket.to(room).emit\<close>
  the room without the sender, \<open>io.to(room).emit\<close> the whole room. \<open>Everyone\<close> is
  \<open>io.emit\<close>, a broadcast to every connection; no handler of the module produces it.
\<close>

datatype target =
    ToSocket socket_id
  | RoomExcept room_name socket_id
  | ToRoom room_name
  | Everyone


text \<open>
  The profile columns read from the \<open>users\<close> table (\<open>id, username, full_name,
  avatar_url\<close>), and a connection as the handlers see it: \<open>socket.id\<close>,
  \<open>socket.userId\<close>, \<open>socket.user\<close> and \<open>socket.rooms\<close> (the rooms the transport has
  the connection in).
\<close>

record profile =
  uid :: user_id
  username :: string
  full_name :: string
  avatar_url :: string

record socket =
  sid :: socket_id
  userId :: user_id
  user :: profile
  rooms :: "room_name list"

subsection \<open>The store\<close>

text \<open>
  The tables the handlers query, with the columns they name. A row of \<open>chat_messages\<close>
  and of \<open>friend_messages\<close> carries the id the store assigned to it.
\<close>

record chat_room =
  room_id :: string
  room_project_id :: string
  room_name :: string

record project_member =
  member_project_id :: string
  member_user_id :: user_id

record friendship =
  requester_id :: user_id
  addressee_id :: user_id
  status :: string

record chat_message =
  message_id :: string
  message_room_id :: string
  message_user_id :: user_id
  message_type :: string
  message_content :: string
  reply_to_message_id :: "string option"

record friend_message =
  fm_id :: string
  sender_id :: user_id
  recipient_id :: user_id
  fm_content :: string

record store =
  users :: "profile list"
  chat_rooms :: "chat_room list"
  project_members :: "project_member list"
  user_friendships :: "friendship list"
  chat_messages :: "chat_message list"
  friend_messages :: "friend_message list"

text \<open>
  A query that ends in \<open>.single()\<close> answers \<open>{ data, error }\<close>: the row when the filter
  selects exactly one, otherwise no data and an error (no row, or several). The handlers
  test \<open>error || !data\<close>, so the answer is an option. A request can also fail as a whole
  (the store is unreachable); whether it does is an input of the handler.
\<close>

definition single :: "'a list \<Rightarrow> 'a option" where
  "single rows = (case rows of [r] \<Rightarrow> Some r | _ \<Rightarrow> None)"

definition query_single :: "bool \<Rightarrow> 'a list \<Rightarrow> 'a option" where
  "query_single fails rows = (if fails then None else single rows)"

subsection \<open>Payloads and emissions\<close>

text \<open>
  The message a room receives: the inserted row with its author's profile (the
  \<open>users!inner\<close> join) and, for a reply, the message replied to.
\<close>

record processed_message =
  row :: chat_message
  author :: profile
  reply_to :: "(chat_message \<times> profile) option"

datatype payload =
    ErrorMessage string
  | UserOffline user_id string
  | ParticipantLeft user_id string
  | UserTyping user_id string string string
  | UserStoppedTyping user_id string string
  | NewMessage processed_message string string
  | MessageSent processed_message string
  | FriendMessage user_id friend_message
  | FriendMessageSent friend_message
  | VideoOffer user_id string string string string
  | RoomsJoined string "chat_room list"

datatype emission = Emit target string payload

fun event :: "emission \<Rightarrow> string" where
  "event (Emit t e p) = e"

fun target_of :: "emission \<Rightarrow> target" where
  "target_of (Emit t e p) = t"

definition emit_error :: "socket \<Rightarrow> string \<Rightarrow> emission" where
  "emit_error s m = Emit (ToSocket (sid s)) ''error'' (ErrorMessage m)"


subsection \<open>Room messages: \<open>send_message\<close>\<close>

text \<open>
  \<open>s.trim()\<close> removes white space and line terminators from both ends; of the code
  units a \<open>char\<close> can hold these are tab, line feed, vertical tab, form feed, carriage
  return, space and the no-break space.
\<close>

definition js_whitespace :: "char list" where
  "js_whitespace = [CHR 0x09, CHR 0x0A, CHR 0x0B, CHR 0x0C, CHR 0x0D, CHR 0x20, CHR 0xA0]"

definition trim :: "string \<Rightarrow> string" where
  "trim s = rev (dropWhile (\<lambda>c. c \<in> set js_whitespace)
                  (rev (dropWhile (\<lambda>c. c \<in> set js_whitespace) s)))"

definition MESSAGE_RATE_LIMIT :: nat where
  "MESSAGE_RATE_LIMIT = 10"

definition MAX_MESSAGE_LENGTH :: nat where
  "MAX_MESSAGE_LENGTH = 5000"

text \<open>
  The loop \<open>while (messageTimestamps.length > 0 && messageTimestamps[0] < oneMinuteAgo)
  messageTimestamps.shift()\<close>.
\<close>

fun shift_old :: "int \<Rightarrow> int list \<Rightarrow> int list" where
  "shift_old oneMinuteAgo [] = []"
| "shift_old oneMinuteAgo (t # ts) =
     (if t < oneMinuteAgo then shift_old oneMinuteAgo ts else t # ts)"

text \<open>The payload of \<open>send_message\<close>; \<open>None\<close> is a field the client left out.\<close>

record message_data =
  roomId :: "string option"
  projectId :: "string option"
  content :: "string option"
  messageType :: "string option"
  replyToMessageId :: "string option"

text \<open>
  What the surroundings contribute to one \<open>send_message\<close>: the clock, which of the
  four requests to the store fail as a whole, and the id the store gives a new row.
\<close>

record send_env =
  now :: int
  room_lookup_fails :: bool
  membership_lookup_fails :: bool
  insert_fails :: bool
  reply_lookup_fails :: bool
  new_id :: string

text \<open>
  \<open>.insert(row).select('*, users!inner(...)').single()\<close>: the store answers with the new
  row joined with its author's profile. The row needs its author in \<open>users\<close> (the inner
  join, and the foreign key behind it); without one, or when the request fails, the
  answer is an error and the table is as it was.
\<close>

definition insert_chat_message :: "bool \<Rightarrow> chat_message \<Rightarrow> store \<Rightarrow> (processed_message \<times> store) option" where
  "insert_chat_message fails m db =
     (case query_single fails (filter (\<lambda>u. uid u = message_user_id m) (users db)) of
        None \<Rightarrow> None
      | Some a \<Rightarrow>
          Some (\<lparr>row = m, author = a, reply_to = None\<rparr>,
                db\<lparr>chat_messages := chat_messages db @ [m]\<rparr>))"

text \<open>
  \<open>.select('*, users!inner(...)').eq('id', replyToMessageId).single()\<close>: the message
  with that id, joined with its author.
\<close>

definition fetch_reply :: "bool \<Rightarrow> string \<Rightarrow> store \<Rightarrow> (chat_message \<times> profile) option" where
  "fetch_reply fails replyId db =
     query_single fails
       (concat (map (\<lambda>m. map (\<lambda>u. (m, u)) (filter (\<lambda>u. uid u = message_user_id m) (users db)))
                    (filter (\<lambda>m. message_id m = replyId) (chat_messages db))))"

text \<open>
  The handler. Its \<open>try\<close> block turns an exception into the error event \<open>Failed to send
  message\<close>; the one exception the model has is the destructuring of a payload that
  is \<open>undefined\<close> (\<open>data = None\<close>). The result is the emitted events, the store and the
  connection's \<open>messageTimestamps\<close>.
\<close>

definition send_message ::
  "socket \<Rightarrow> send_env \<Rightarrow> message_data option \<Rightarrow> store \<times> int list
     \<Rightarrow> emission list \<times> store \<times> int list" where
  "send_message socket env data st =
     (let db = fst st;
          messageTimestamps = snd st;
          oneMinuteAgo = now env - 60000;
          recentMessages = filter (\<lambda>t. t > oneMinuteAgo) messageTimestamps
      in if length recentMessages \<ge> MESSAGE_RATE_LIMIT
         then ([emit_error socket ''Message rate limit exceeded''], db, messageTimestamps)
         else
           (let stamps = shift_old oneMinuteAgo (messageTimestamps @ [now env])
            in case data of
                 None \<Rightarrow> ([emit_error socket ''Failed to send message''], db, stamps)
               | Some d \<Rightarrow>
                   (case (roomId d, content d, projectId d) of
                      (Some room, Some text, Some project) \<Rightarrow>
                        if \<not> truthy room \<or> \<not> truthy (trim text) \<or> \<not> truthy project
                        then ([emit_error socket ''Invalid message data''], db, stamps)
                        else
                          (let trimmedContent = take MAX_MESSAGE_LENGTH text;
                               roomResult =
                                 query_single (room_lookup_fails env)
                                   (filter (\<lambda>r. room_id r = room) (chat_rooms db));
                               membershipResult =
                                 query_single (membership_lookup_fails env)
                                   (filter (\<lambda>m. member_project_id m = project
                                                \<and> member_user_id m = userId socket)
                                      (project_members db))
                           in case roomResult of
                                None \<Rightarrow> ([emit_error socket ''Chat room not found''], db, stamps)
                              | Some roomRow \<Rightarrow>
                                  (case membershipResult of
                                     None \<Rightarrow> ([emit_error socket ''Not a project member''], db, stamps)
                                   | Some member \<Rightarrow>
                                       (case insert_chat_message (insert_fails env)
                                               \<lparr>message_id = new_id env,
                                                message_room_id = room,
                                                message_user_id = userId socket,
                                                message_type =
                                                  (case messageType d of None \<Rightarrow> ''text'' | Some t \<Rightarrow> t),
                                                message_content = trimmedContent,
                                                reply_to_message_id = replyToMessageId d\<rparr> db of
                                          None \<Rightarrow> ([emit_error socket ''Failed to send message''], db, stamps)
                                        | Some (newMessage, db') \<Rightarrow>
                                            (let processedMessage =
                                               (case replyToMessageId d of
                                                  None \<Rightarrow> newMessage
                                                | Some replyId \<Rightarrow>
                                                    if truthy replyId
                                                    then newMessage\<lparr>reply_to :=
                                                           fetch_reply (reply_lookup_fails env) replyId db'\<rparr>
                                                    else newMessage)
                                             in ([Emit (RoomExcept (''room_'' @ room) (sid socket)) ''new_message''
                                                    (NewMessage processedMessage room (room_project_id roomRow)),
                                                  Emit (ToSocket (sid socket)) ''message_sent''
                                                    (MessageSent processedMessage room)],
                                                 db', stamps)))))
                    | _ \<Rightarrow> ([emit_error socket ''Invalid message data''], db, stamps))))"

text \<open>A connection's \<open>send_message\<close> events in the order they arrive.\<close>

fun send_messages ::
  "socket \<Rightarrow> (send_env \<times> message_data option) list \<Rightarrow> store \<times> int list
     \<Rightarrow> emission list list \<times> store \<times> int list" where
  "send_messages socket [] st = ([], st)"
| "send_messages socket (e # es) st =
     (let (out, st') = send_message socket (fst e) (snd e) st;
          (outs, st'') = send_messages socket es st'
      in (out # outs, st''))"


subsection \<open>Friend messages: \<open>send_friend_message\<close>\<close>

text \<open>
  The payload is \<open>{ recipientId, content }\<close>, here a pair. The friendship query selects
  the rows \<open>or(and(requester = sender, addressee = recipient, accepted),
  and(requester = recipient, addressee = sender, accepted))\<close> and ends in \<open>.single()\<close>.
\<close>

record friend_env =
  friendship_lookup_fails :: bool
  friend_insert_fails :: bool
  friend_new_id :: string

definition accepted_between :: "user_id \<Rightarrow> user_id \<Rightarrow> friendship \<Rightarrow> bool" where
  "accepted_between senderId recipient f \<longleftrightarrow>
     (requester_id f = senderId \<and> addressee_id f = recipient \<and> status f = ''accepted'')
     \<or> (requester_id f = recipient \<and> addressee_id f = senderId \<and> status f = ''accepted'')"

definition send_friend_message ::
  "socket \<Rightarrow> friend_env \<Rightarrow> (string option \<times> string option) option \<Rightarrow> store
     \<Rightarrow> emission list \<times> store" where
  "send_friend_message socket env data db =
     (case data of
        None \<Rightarrow> ([emit_error socket ''Failed to send message''], db)
      | Some (Some recipient, Some text) \<Rightarrow>
          (let senderId = userId socket
           in if \<not> truthy recipient \<or> \<not> truthy (trim text)
              then ([emit_error socket ''Invalid message data''], db)
              else
                (case query_single (friendship_lookup_fails env)
                        (filter (accepted_between senderId recipient) (user_friendships db)) of
                   None \<Rightarrow> ([emit_error socket ''Not friends with this user''], db)
                 | Some friendship \<Rightarrow>
                     if friend_insert_fails env
                     then ([emit_error socket ''Failed to send message''], db)
                     else
                       (let message = \<lparr>fm_id = friend_new_id env, sender_id = senderId,
                                       recipient_id = recipient, fm_content = trim text\<rparr>
                        in ([Emit (ToRoom (''user_'' @ recipient)) ''friend_message''
                               (FriendMessage senderId message),
                             Emit (ToSocket (sid socket)) ''friend_message_sent''
                               (FriendMessageSent message)],
                            db\<lparr>friend_messages := friend_messages db @ [message]\<rparr>))))
      | Some _ \<Rightarrow> ([emit_error socket ''Invalid message data''], db))"

subsection \<open>The authentication middleware and the \<open>connection\<close> callback\<close>

definition MAX_CONNECTIONS_PER_USER :: nat where
  "MAX_CONNECTIONS_PER_USER = 10"

definition USER_CACHE_TTL :: int where
  "USER_CACHE_TTL = 5 * 60 * 1000"

record cached_user =
  cached_profile :: profile
  cachedAt :: int

text \<open>The two fields the middleware reads of a verified token: \<open>decoded.id\<close>, \<open>decoded.userId\<close>.\<close>

record decoded =
  token_id :: "string option"
  token_userId :: "string option"

record server =
  manager :: registry
  userCache :: "user_id \<rightharpoonup> cached_user"
  activeConnections :: "user_id \<rightharpoonup> int"

definition new_server :: server where
  "new_server = \<lparr>manager = new_registry, userCache = Map.empty, activeConnections = Map.empty\<rparr>"

text \<open>
  One connection attempt: the token of the handshake, whether the profile request to the
  store fails, and the clock at the cache test and after the request.
\<close>

record attempt =
  token :: "string option"
  profile_lookup_fails :: bool
  checked_at :: int
  fetched_at :: int

text \<open>
  The middleware, \<open>io.use\<close>. \<open>jwt_verify\<close> is \<open>jwt.verify\<close> with the server's secret: it
  answers the decoded token or throws (\<open>None\<close>), which the \<open>catch\<close> turns into
  \<open>Authentication failed\<close>. The result is the reason given to \<open>next\<close>, or the user put
  on the socket.
\<close>

definition authenticate ::
  "(string \<Rightarrow> decoded option) \<Rightarrow> store \<Rightarrow> attempt \<Rightarrow> server \<Rightarrow> (string + cached_user) \<times> server" where
  "authenticate jwt_verify db a srv =
     (case token a of
        None \<Rightarrow> (Inl ''Authentication token required'', srv)
      | Some tok \<Rightarrow>
          if \<not> truthy tok then (Inl ''Authentication token required'', srv)
          else
            (case jwt_verify tok of
               None \<Rightarrow> (Inl ''Authentication failed'', srv)
             | Some d \<Rightarrow>
                 (case (if truthy_opt (token_id d) then token_id d else token_userId d) of
                    None \<Rightarrow> (Inl ''Invalid token structure'', srv)
                  | Some userId' \<Rightarrow>
                      if \<not> truthy userId' then (Inl ''Invalid token structure'', srv)
                      else
                        (let cached =
                           (case userCache srv userId' of
                              None \<Rightarrow> None
                            | Some u \<Rightarrow>
                                if checked_at a - cachedAt u > USER_CACHE_TTL then None else Some u);
                             fetched =
                           (case cached of
                              Some u \<Rightarrow> Some (u, srv)
                            | None \<Rightarrow>
                                (case query_single (profile_lookup_fails a)
                                        (filter (\<lambda>u. uid u = userId') (users db)) of
                                   None \<Rightarrow> None
                                 | Some userData \<Rightarrow>
                                     (let u = \<lparr>cached_profile = userData, cachedAt = fetched_at a\<rparr>
                                      in Some (u, srv\<lparr>userCache := (userCache srv)(userId' \<mapsto> u)\<rparr>))))
                         in case fetched of
                              None \<Rightarrow> (Inl ''Invalid authentication token'', srv)
                            | Some (u, srv') \<Rightarrow>
                                (let userConnectionCount =
                                       getUserSocketCount (uid (cached_profile u)) (manager srv')
                                 in if userConnectionCount \<ge> MAX_CONNECTIONS_PER_USER
                                    then (Inl ''Maximum connections exceeded'', srv')
                                    else (Inr u,
                                          srv'\<lparr>activeConnections :=
                                                 (activeConnections srv')
                                                   (uid (cached_profile u) \<mapsto> int userConnectionCount + 1)\<rparr>))))))"

text \<open>
  A handshake is two callbacks. The middleware, when it lets the attempt through, puts
  the user on the socket (\<open>socket.userId\<close>, \<open>socket.user\<close>) and calls \<open>next()\<close>; the
  registry is not touched. The \<open>connection\<close> callback runs later, and its first
  step is \<open>connectionManager.addConnection(socket.userId, socket.id)\<close>. A new connection is
  in the room of its own id.
\<close>

definition attach :: "socket_id \<Rightarrow> cached_user \<Rightarrow> socket" where
  "attach socketId u =
     \<lparr>sid = socketId, userId = uid (cached_profile u), user = cached_profile u,
      rooms = [socketId]\<rparr>"

definition on_connection :: "socket \<Rightarrow> server \<Rightarrow> server" where
  "on_connection socket srv =
     srv\<lparr>manager := addConnection (userId socket) (sid socket) (manager srv)\<rparr>"

text \<open>
  The callbacks of handshakes in the order the runtime runs them: the middleware of an
  attempt on a socket, or the \<open>connection\<close> callback of a socket that the middleware
  has let through. Between the two callbacks of one handshake the runtime may run
  callbacks of others, so the order is an input. The state is the sockets that wait for
  their \<open>connection\<close> callback, and the server; the results are those of the
  middleware runs.
\<close>

datatype callback = Handshake attempt socket_id | Connection socket_id

fun handshakes ::
  "(string \<Rightarrow> decoded option) \<Rightarrow> store \<Rightarrow> callback list \<Rightarrow> socket list \<times> server
     \<Rightarrow> (string + socket) list \<times> socket list \<times> server" where
  "handshakes jwt_verify db [] st = ([], st)"
| "handshakes jwt_verify db (Handshake a s # rest) st =
     (case authenticate jwt_verify db a (snd st) of
        (Inl reason, srv') \<Rightarrow>
          (let (ress, st') = handshakes jwt_verify db rest (fst st, srv')
           in (Inl reason # ress, st'))
      | (Inr u, srv') \<Rightarrow>
          (let (ress, st') = handshakes jwt_verify db rest (fst st @ [attach s u], srv')
           in (Inr (attach s u) # ress, st')))"
| "handshakes jwt_verify db (Connection s # rest) st =
     (case find (\<lambda>socket. sid socket = s) (fst st) of
        None \<Rightarrow> handshakes jwt_verify db rest st
      | Some socket \<Rightarrow>
          handshakes jwt_verify db rest
            (filter (\<lambda>x. sid x \<noteq> s) (fst st), on_connection socket (snd st)))"

subsection \<open>Project rooms: \<open>join_project_rooms\<close>\<close>

text \<open>
  \<open>socket.join(room)\<close> adds the room to \<open>socket.rooms\<close>. The two requests are the
  membership row (\<open>.single()\<close>) and the project's chat rooms (\<open>.limit(50)\<close>).
\<close>

definition join :: "room_name \<Rightarrow> socket \<Rightarrow> socket" where
  "join room s = s\<lparr>rooms := Set_add room (rooms s)\<rparr>"

definition join_project_rooms ::
  "bool \<Rightarrow> bool \<Rightarrow> string \<Rightarrow> store \<Rightarrow> socket \<times> registry \<Rightarrow> emission list \<times> socket \<times> registry" where
  "join_project_rooms membership_fails rooms_fail project db st =
     (let socket = fst st;
          reg = snd st;
          membershipResult =
            query_single membership_fails
              (filter (\<lambda>m. member_project_id m = project \<and> member_user_id m = userId socket)
                 (project_members db));
          roomsResult =
            (if rooms_fail then None
             else Some (take 50 (filter (\<lambda>r. room_project_id r = project) (chat_rooms db))))
      in case membershipResult of
           None \<Rightarrow> ([emit_error socket ''Not a project member''], socket, reg)
         | Some member \<Rightarrow>
             (case roomsResult of
                None \<Rightarrow> ([emit_error socket ''Failed to fetch chat rooms''], socket, reg)
              | Some found \<Rightarrow>
                  (let projectRoom = ''project_'' @ project;
                       roomNames = map (\<lambda>r. ''room_'' @ room_id r) found
                   in ([Emit (ToSocket (sid socket)) ''rooms_joined'' (RoomsJoined project found)],
                       fold join roomNames (join projectRoom socket),
                       fold (addRoom (sid socket)) roomNames
                         (addRoom (sid socket) projectRoom reg)))))"

subsection \<open>Typing indicators\<close>

text \<open>
  \<open>setTimeout\<close> and \<open>clearTimeout\<close>: the runtime holds the pending timers, each with the
  handle \<open>setTimeout\<close> returned, the time it is due and what its callback closes over
  (\<open>roomId\<close>, \<open>projectId\<close>). \<open>typingTimeouts\<close> is the connection's map from room id to
  handle, an association list in insertion order.
\<close>

record timer =
  handle :: nat
  due :: int
  timer_roomId :: string
  timer_projectId :: string

record typing =
  typingTimeouts :: "(string \<times> nat) list"
  timers :: "timer list"
  next_handle :: nat

definition idle :: typing where
  "idle = \<lparr>typingTimeouts = [], timers = [], next_handle = 0\<rparr>"

definition clearTimeout :: "nat \<Rightarrow> timer list \<Rightarrow> timer list" where
  "clearTimeout h ts = filter (\<lambda>t. handle t \<noteq> h) ts"

definition typing_start :: "socket \<Rightarrow> int \<Rightarrow> string \<Rightarrow> string \<Rightarrow> typing \<Rightarrow> emission list \<times> typing" where
  "typing_start socket clock room project ty =
     (let pending =
            (case map_of (typingTimeouts ty) room of
               None \<Rightarrow> timers ty
             | Some h \<Rightarrow> clearTimeout h (timers ty));
          timeout = next_handle ty
      in ([Emit (RoomExcept (''room_'' @ room) (sid socket)) ''user_typing''
             (UserTyping (userId socket) (username (user socket)) room project)],
          ty\<lparr>typingTimeouts := AList.update room timeout (typingTimeouts ty),
             timers := pending @ [\<lparr>handle = timeout, due = clock + 5000,
                                   timer_roomId = room, timer_projectId = project\<rparr>],
             next_handle := Suc timeout\<rparr>))"

text \<open>The callback of the timer, run by the runtime when the timer is due.\<close>

definition typing_expired :: "socket \<Rightarrow> timer \<Rightarrow> typing \<Rightarrow> emission list \<times> typing" where
  "typing_expired socket t ty =
     ([Emit (RoomExcept (''room_'' @ timer_roomId t) (sid socket)) ''user_stopped_typing''
         (UserStoppedTyping (userId socket) (timer_roomId t) (timer_projectId t))],
      ty\<lparr>typingTimeouts := AList.delete (timer_roomId t) (typingTimeouts ty),
         timers := clearTimeout (handle t) (timers ty)\<rparr>)"

definition typing_stop :: "socket \<Rightarrow> string \<Rightarrow> string \<Rightarrow> typing \<Rightarrow> emission list \<times> typing" where
  "typing_stop socket room project ty =
     ([Emit (RoomExcept (''room_'' @ room) (sid socket)) ''user_stopped_typing''
         (UserStoppedTyping (userId socket) room project)],
      (case map_of (typingTimeouts ty) room of
         None \<Rightarrow> ty
       | Some h \<Rightarrow> ty\<lparr>typingTimeouts := AList.delete room (typingTimeouts ty),
                      timers := clearTimeout h (timers ty)\<rparr>))"

text \<open>
  The event loop: before it handles what arrives at time \<open>clock\<close>, the runtime has run
  the callback of every pending timer that was due by then, earliest first.
\<close>

fun run_callbacks :: "socket \<Rightarrow> timer list \<Rightarrow> typing \<Rightarrow> emission list \<times> typing" where
  "run_callbacks socket [] ty = ([], ty)"
| "run_callbacks socket (t # ts) ty =
     (if t \<in> set (timers ty)
      then (let (out, ty') = typing_expired socket t ty;
                (outs, ty'') = run_callbacks socket ts ty'
            in (out @ outs, ty''))
      else run_callbacks socket ts ty)"

definition advance :: "socket \<Rightarrow> int \<Rightarrow> typing \<Rightarrow> emission list \<times> typing" where
  "advance socket clock ty =
     run_callbacks socket (sort_key due (filter (\<lambda>t. due t \<le> clock) (timers ty))) ty"

datatype typing_signal = TypingStart string string | TypingStop string string | Nothing

fun typing_run :: "socket \<Rightarrow> (int \<times> typing_signal) list \<Rightarrow> typing \<Rightarrow> emission list \<times> typing" where
  "typing_run socket [] ty = ([], ty)"
| "typing_run socket ((clock, sig) # rest) ty =
     (let (expired, ty1) = advance socket clock ty;
          (out, ty2) =
            (case sig of
               TypingStart room project \<Rightarrow> typing_start socket clock room project ty1
             | TypingStop room project \<Rightarrow> typing_stop socket room project ty1
             | Nothing \<Rightarrow> ([], ty1));
          (outs, ty3) = typing_run socket rest ty2
      in (expired @ out @ outs, ty3))"

subsection \<open>Video signalling: \<open>video_offer\<close>\<close>

text \<open>
  The payload is \<open>{ roomId, projectId, targetUserId, offer }\<close>; the handler reads the
  room, the target and the offer. \<open>live\<close> is \<open>io.sockets.sockets\<close>, the connections that
  are open, in the order \<open>forEach\<close> visits them. The \<open>catch\<close> of the handler only logs.
\<close>

definition video_offer ::
  "socket \<Rightarrow> (string \<times> string \<times> string) option \<Rightarrow> socket list \<Rightarrow> emission list" where
  "video_offer socket data live =
     (case data of
        None \<Rightarrow> []
      | Some (room, targetUserId, offer) \<Rightarrow>
          (let videoRoomName = ''video_'' @ room
           in map (\<lambda>clientSocket.
                     Emit (ToSocket (sid clientSocket)) ''video_offer''
                       (VideoOffer (userId socket) (username (user socket))
                          (avatar_url (user socket)) offer room))
                (filter (\<lambda>clientSocket. userId clientSocket = targetUserId
                                        \<and> Set_has (rooms clientSocket) videoRoomName) live)))"

subsection \<open>The \<open>disconnect\<close> callback\<close>

definition disconnect ::
  "socket \<Rightarrow> typing \<times> server \<Rightarrow> emission list \<times> typing \<times> server" where
  "disconnect socket st =
     (let ty = fst st;
          srv = snd st;
          left =
            concat (map (\<lambda>room.
                      if startsWith room ''video_''
                      then [Emit (RoomExcept room (sid socket)) ''video_participant_left''
                              (ParticipantLeft (userId socket) (replace_first ''video_'' room))]
                      else [])
                    (rooms socket));
          ty' =
            (if length (typingTimeouts ty) > 0
             then ty\<lparr>timers := fold (\<lambda>timeout. clearTimeout timeout) (map snd (typingTimeouts ty)) (timers ty),
                     typingTimeouts := []\<rparr>
             else ty);
          counts =
            (if truthy (userId socket)
             then (let userConnectionCount =
                         (case activeConnections srv (userId socket) of None \<Rightarrow> 0 | Some c \<Rightarrow> c);
                       newCount = max 0 (userConnectionCount - 1)
                   in if newCount \<le> 0
                      then (activeConnections srv)(userId socket := None)
                      else (activeConnections srv)(userId socket \<mapsto> newCount))
             else activeConnections srv);
          offline =
            concat (map (\<lambda>roomName.
                      if startsWith roomName ''project_''
                      then [Emit (RoomExcept roomName (sid socket)) ''user_offline''
                              (UserOffline (userId socket) (replace_first ''project_'' roomName))]
                      else [])
                    (getRooms (sid socket) (manager srv)))
      in (left @ offline, ty',
          srv\<lparr>activeConnections := counts,
              manager := removeConnection (sid socket) (manager srv)\<rparr>))"

subsection \<open>Notions the properties are stated with\<close>

text \<open>
  Socket \<open>s\<close> is an open connection of user \<open>u\<close>: the registry maps the socket to the
  user (whose id is truthy, as the middleware has checked) and the user's set holds the
  socket; the list that stands for the set has no repetition.
\<close>

definition open_connection :: "registry \<Rightarrow> user_id \<Rightarrow> socket_id \<Rightarrow> bool" where
  "open_connection r u s \<longleftrightarrow>
     truthy u \<and> socketUsers r s = Some u
     \<and> (case userSockets r u of None \<Rightarrow> False | Some ss \<Rightarrow> s \<in> set ss \<and> distinct ss)"



text \<open>
  The part of the middleware before the connection limit, on its own: the reason for
  which the attempt is turned away, or the user it resolves to together with the cache
  after the lookup. It reads the token, the cache and the store, and not the registry.
  (\<open>authenticate_resolve\<close> below relates it to \<open>authenticate\<close>.)
\<close>

definition resolve ::
  "(string \<Rightarrow> decoded option) \<Rightarrow> store \<Rightarrow> attempt \<Rightarrow> (user_id \<rightharpoonup> cached_user)
     \<Rightarrow> string + cached_user \<times> (user_id \<rightharpoonup> cached_user)" where
  "resolve jwt_verify db a cache =
     (case token a of
        None \<Rightarrow> Inl ''Authentication token required''
      | Some tok \<Rightarrow>
          if \<not> truthy tok then Inl ''Authentication token required''
          else
            (case jwt_verify tok of
               None \<Rightarrow> Inl ''Authentication failed''
             | Some d \<Rightarrow>
                 (case (if truthy_opt (token_id d) then token_id d else token_userId d) of
                    None \<Rightarrow> Inl ''Invalid token structure''
                  | Some userId' \<Rightarrow>
                      if \<not> truthy userId' then Inl ''Invalid token structure''
                      else
                        (case (case cache userId' of
                                 None \<Rightarrow> None
                               | Some u \<Rightarrow>
                                   if checked_at a - cachedAt u > USER_CACHE_TTL then None else Some u) of
                           Some u \<Rightarrow> Inr (u, cache)
                         | None \<Rightarrow>
                             (case query_single (profile_lookup_fails a)
                                     (filter (\<lambda>u. uid u = userId') (users db)) of
                                None \<Rightarrow> Inl ''Invalid authentication token''
                              | Some userData \<Rightarrow>
                                  Inr (\<lparr>cached_profile = userData, cachedAt = fetched_at a\<rparr>,
                                       cache(userId' \<mapsto>
                                         \<lparr>cached_profile = userData, cachedAt = fetched_at a\<rparr>)))))))"



text \<open>
  The conditions under which \<open>send_message\<close> reaches its two final emissions: the rate
  limiter lets the event through, the three fields are there, both lookups answer with a
  row, and the store accepts the new row.
\<close>

definition deliverable :: "socket \<Rightarrow> send_env \<Rightarrow> message_data \<Rightarrow> store \<times> int list \<Rightarrow> bool" where
  "deliverable socket env d st \<longleftrightarrow>
     length (filter (\<lambda>t. t > now env - 60000) (snd st)) < MESSAGE_RATE_LIMIT
     \<and> truthy_opt (roomId d)
     \<and> (case content d of None \<Rightarrow> False | Some text \<Rightarrow> truthy (trim text))
     \<and> truthy_opt (projectId d)
     \<and> query_single (room_lookup_fails env)
           (filter (\<lambda>r. Some (room_id r) = roomId d) (chat_rooms (fst st))) \<noteq> None
     \<and> query_single (membership_lookup_fails env)
           (filter (\<lambda>m. Some (member_project_id m) = projectId d \<and> member_user_id m = userId socket)
              (project_members (fst st))) \<noteq> None
     \<and> query_single (insert_fails env)
           (filter (\<lambda>u. uid u = userId socket) (users (fst st))) \<noteq> None"

subsection \<open>Sample data\<close>

text \<open>
  Two users, two projects with a chat room each, one accepted friendship, and a token
  verifier that knows two tokens; the concrete runs below start from these.
\<close>

definition alice :: profile where
  "alice = \<lparr>uid = ''alice'', username = ''Alice'', full_name = ''Alice A'', avatar_url = ''a.png''\<rparr>"

definition bob :: profile where
  "bob = \<lparr>uid = ''bob'', username = ''Bob'', full_name = ''Bob B'', avatar_url = ''b.png''\<rparr>"

definition sample_store :: store where
  "sample_store =
     \<lparr>users = [alice, bob],
      chat_rooms = [\<lparr>room_id = ''r1'', room_project_id = ''pA'', room_name = ''general''\<rparr>,
                    \<lparr>room_id = ''r2'', room_project_id = ''pB'', room_name = ''general''\<rparr>],
      project_members = [\<lparr>member_project_id = ''pA'', member_user_id = ''alice''\<rparr>,
                         \<lparr>member_project_id = ''pB'', member_user_id = ''bob''\<rparr>,
                         \<lparr>member_project_id = ''pA'', member_user_id = ''bob''\<rparr>],
      user_friendships = [\<lparr>requester_id = ''alice'', addressee_id = ''bob'', status = ''accepted''\<rparr>],
      chat_messages = [],
      friend_messages = []\<rparr>"

definition sample_jwt :: "string \<Rightarrow> decoded option" where
  "sample_jwt tok =
     (if tok = ''alice-token'' then Some \<lparr>token_id = Some ''alice'', token_userId = None\<rparr>
      else if tok = ''bob-token'' then Some \<lparr>token_id = None, token_userId = Some ''bob''\<rparr>
      else None)"

definition alice_attempt :: attempt where
  "alice_attempt = \<lparr>token = Some ''alice-token'', profile_lookup_fails = False,
                     checked_at = 0, fetched_at = 1\<rparr>"

definition bob_attempt :: attempt where
  "bob_attempt = \<lparr>token = Some ''bob-token'', profile_lookup_fails = False,
                   checked_at = 0, fetched_at = 1\<rparr>"

definition alice_socket :: "socket_id \<Rightarrow> socket" where
  "alice_socket s = \<lparr>sid = s, userId = ''alice'', user = alice, rooms = [s]\<rparr>"

definition bob_socket :: "socket_id \<Rightarrow> socket" where
  "bob_socket s = \<lparr>sid = s, userId = ''bob'', user = bob, rooms = [s]\<rparr>"

definition calm :: "int \<Rightarrow> string \<Rightarrow> send_env" where
  "calm clock i = \<lparr>now = clock, room_lookup_fails = False, membership_lookup_fails = False,
                   insert_fails = False, reply_lookup_fails = False, new_id = i\<rparr>"

definition plain_message :: "string \<Rightarrow> string \<Rightarrow> string \<Rightarrow> message_data" where
  "plain_message room project text =
     \<lparr>roomId = Some room, projectId = Some project, content = Some text,
      messageType = None, replyToMessageId = None\<rparr>"

text \<open>
  Alice with two connections, the second of which has joined the rooms of project
  \<open>pA\<close>; Bob with one connection that has joined the rooms of both projects; and
  eleven handshakes of Alice, each on a socket of its own, whose middleware runs are all
  over before the first \<open>connection\<close> callback.
\<close>

definition two_tabs :: server where
  "two_tabs =
     (let srv = snd (snd (handshakes sample_jwt sample_store
                            [Handshake alice_attempt ''s1'', Connection ''s1'',
                             Handshake alice_attempt ''s2'', Connection ''s2'']
                            ([], new_server)))
      in srv\<lparr>manager :=
               snd (snd (join_project_rooms False False ''pA'' sample_store
                           (alice_socket ''s2'', manager srv)))\<rparr>)"

definition bob_online :: "socket \<times> server" where
  "bob_online =
     (let srv = snd (snd (handshakes sample_jwt sample_store
                            [Handshake bob_attempt ''s3'', Connection ''s3''] ([], new_server)));
          st1 = snd (join_project_rooms False False ''pA'' sample_store
                       (bob_socket ''s3'', manager srv));
          st2 = snd (join_project_rooms False False ''pB'' sample_store st1)
      in (fst st2, srv\<lparr>manager := snd st2\<rparr>))"



text \<open>
  Ten room messages of Alice one second apart and an eleventh a second later; ten
  events without a payload at the same times; and a message of 5003 units.
\<close>

definition hello :: "message_data option" where
  "hello = Some (plain_message ''r1'' ''pA'' ''hello'')"

definition ten_sends :: "(send_env \<times> message_data option) list" where
  "ten_sends = map (\<lambda>k. (calm (1000 * int k) (replicate k CHR ''i''), hello)) [1..<11]"

definition ten_empty_sends :: "(send_env \<times> message_data option) list" where
  "ten_empty_sends = map (\<lambda>k. (calm (1000 * int k) (replicate k CHR ''i''), None)) [1..<11]"

definition eleventh :: "send_env \<times> message_data option" where
  "eleventh = (calm 11000 ''eleven'', hello)"

definition long_message :: message_data where
  "long_message = plain_message ''r1'' ''pA'' (replicate 5003 CHR ''a'')"

text \<open>
  A store in which Alice and Bob each sent the other a request and both were accepted;
  a store that answers every request; three open connections, two of them in the call
  of room \<open>r1\<close>; and the same three, all in the call.
\<close>

definition mutual_store :: store where
  "mutual_store =
     sample_store\<lparr>user_friendships :=
       [\<lparr>requester_id = ''alice'', addressee_id = ''bob'', status = ''accepted''\<rparr>,
        \<lparr>requester_id = ''bob'', addressee_id = ''alice'', status = ''accepted''\<rparr>]\<rparr>"

definition no_failure :: friend_env where
  "no_failure = \<lparr>friendship_lookup_fails = False, friend_insert_fails = False,
                  friend_new_id = ''f1''\<rparr>"

definition in_call :: "socket list" where
  "in_call = [join ''video_r1'' (alice_socket ''s1''),
              join ''video_r1'' (bob_socket ''s3''),
              bob_socket ''s4'']"

definition both_tabs_in_call :: "socket list" where
  "both_tabs_in_call = [join ''video_r1'' (alice_socket ''s1''),
                        join ''video_r1'' (bob_socket ''s3''),
                        join ''video_r1'' (bob_socket ''s4'')]"

section \<open>Properties\<close>

subsection \<open>JavaScript sets and strings\<close>

lemma Set_delete_absent: "x \<notin> set xs \<Longrightarrow> Set_delete x xs = xs"
  unfolding Set_delete_def by (induction xs) auto

lemma length_Set_delete:
  "distinct xs \<Longrightarrow> x \<in> set xs \<Longrightarrow> Suc (length (Set_delete x xs)) = length xs"
proof (induction xs)
  case Nil
  then show ?case by simp
next
  case (Cons a xs)
  show ?case
  proof (cases "a = x")
    case True
    with Cons.prems have "x \<notin> set xs" by simp
    then have "Set_delete x xs = xs" by (rule Set_delete_absent)
    with True show ?thesis by (simp add: Set_delete_def)
  next
    case False
    with Cons show ?thesis by (simp add: Set_delete_def)
  qed
qed

lemma set_Set_delete: "set (Set_delete x xs) = set xs - {x}"
  by (auto simp: Set_delete_def)

lemma distinct_Set_delete: "distinct xs \<Longrightarrow> distinct (Set_delete x xs)"
  by (simp add: Set_delete_def)

lemma replace_first_prefix: "startsWith s p \<Longrightarrow> replace_first p s = drop (length p) s"
  by (cases s) (auto simp: startsWith_def)

lemma concat_map_if:
  "concat (map (\<lambda>x. if P x then [g x] else []) xs) = map g (filter P xs)"
  by (induction xs) auto

subsection \<open>The registry on disconnect\<close>

lemma disconnect_manager:
  "disconnect socket (ty, srv) = (out, ty', srv') \<Longrightarrow>
     manager srv' = removeConnection (sid socket) (manager srv)"
  by (auto simp: disconnect_def Let_def)

lemma removeConnection_count:
  assumes "open_connection r u s"
  shows "getUserSocketCount u (removeConnection s r) + 1 = getUserSocketCount u r"
proof -
  from assms obtain ss where ss: "userSockets r u = Some ss" "s \<in> set ss" "distinct ss"
    and u: "truthy u" "socketUsers r s = Some u"
    by (auto simp: open_connection_def split: option.splits)
  have len: "Suc (length (Set_delete s ss)) = length ss"
    using ss by (simp add: length_Set_delete)
  show ?thesis
    using ss u len by (auto simp: removeConnection_def getUserSocketCount_def Let_def)
qed

lemma removeConnection_frame:
  "s' \<noteq> s \<Longrightarrow> socketRooms (removeConnection s r) s' = socketRooms r s'
     \<and> socketUsers (removeConnection s r) s' = socketUsers r s'"
  by (auto simp: removeConnection_def Let_def split: option.splits)

lemma removeConnection_other_user:
  assumes "socketUsers r s = Some u" "v \<noteq> u"
  shows "userSockets (removeConnection s r) v = userSockets r v"
  using assms by (auto simp: removeConnection_def Let_def split: option.splits)

lemma removeConnection_still_open:
  assumes "open_connection r u s" "s' \<noteq> s"
  shows "open_connection (removeConnection s r) u s' \<longleftrightarrow> open_connection r u s'"
proof -
  from assms(1) obtain ss where ss: "userSockets r u = Some ss" "s \<in> set ss" "distinct ss"
    and u: "truthy u" "socketUsers r s = Some u"
    by (auto simp: open_connection_def split: option.splits)
  have users: "socketUsers (removeConnection s r) s' = socketUsers r s'"
    using assms(2) by (auto simp: removeConnection_def Let_def split: option.splits)
  have socks: "userSockets (removeConnection s r) u =
      (if Set_delete s ss = [] then None else Some (Set_delete s ss))"
    using ss u by (auto simp: removeConnection_def Let_def)
  have mem: "s' \<in> set (Set_delete s ss) \<longleftrightarrow> s' \<in> set ss"
    using assms(2) by (simp add: set_Set_delete)
  have empty: "Set_delete s ss = [] \<Longrightarrow> s' \<notin> set ss"
    using mem by auto
  show ?thesis
    using ss u users socks mem empty distinct_Set_delete [OF ss(3), of s]
    by (auto simp: open_connection_def)
qed

lemma disconnect_out:
  assumes "disconnect socket (ty, srv) = (out, ty', srv')"
  shows "out =
      map (\<lambda>room. Emit (RoomExcept room (sid socket)) ''video_participant_left''
                    (ParticipantLeft (userId socket) (replace_first ''video_'' room)))
          (filter (\<lambda>room. startsWith room ''video_'') (rooms socket))
      @ map (\<lambda>roomName. Emit (RoomExcept roomName (sid socket)) ''user_offline''
                    (UserOffline (userId socket) (replace_first ''project_'' roomName)))
          (filter (\<lambda>roomName. startsWith roomName ''project_'')
             (getRooms (sid socket) (manager srv)))"
  using assms by (auto simp: disconnect_def Let_def concat_map_if)

text \<open>
  C7. When a socket that is an open connection of user \<open>u\<close> disconnects, the user's
  connection count goes down by exactly one, and nothing else of the registry moves:
  every other socket keeps its room set and its user, the user's other sockets stay
  open connections of the user, and every other user keeps their set of sockets. (The
  count need not be two or more for this.)
\<close>

theorem disconnect_one_of_several:
  assumes "open_connection (manager srv) u (sid socket)"
    and "disconnect socket (ty, srv) = (out, ty', srv')"
  shows "getUserSocketCount u (manager srv') + 1 = getUserSocketCount u (manager srv)
     \<and> (\<forall>s. s \<noteq> sid socket \<longrightarrow>
            socketRooms (manager srv') s = socketRooms (manager srv) s
          \<and> getRooms s (manager srv') = getRooms s (manager srv)
          \<and> socketUsers (manager srv') s = socketUsers (manager srv) s
          \<and> (open_connection (manager srv') u s \<longleftrightarrow> open_connection (manager srv) u s))
     \<and> (\<forall>v. v \<noteq> u \<longrightarrow> userSockets (manager srv') v = userSockets (manager srv) v)"
proof -
  have m: "manager srv' = removeConnection (sid socket) (manager srv)"
    using assms(2) by (rule disconnect_manager)
  have u: "socketUsers (manager srv) (sid socket) = Some u"
    using assms(1) by (simp add: open_connection_def)
  show ?thesis
    unfolding m
    using removeConnection_count [OF assms(1)] removeConnection_frame
      removeConnection_other_user [OF u] removeConnection_still_open [OF assms(1)]
    by (simp add: getRooms_def)
qed

theorem disconnect_one_of_several_witness:
  "open_connection (manager two_tabs) ''alice'' ''s1''
   \<and> getUserSocketCount ''alice'' (manager two_tabs) = 2
   \<and> getUserSocketCount ''alice''
        (manager (snd (snd (disconnect (alice_socket ''s1'') (idle, two_tabs))))) = 1
   \<and> getRooms ''s2'' (manager (snd (snd (disconnect (alice_socket ''s1'') (idle, two_tabs)))))
        = [''project_pA'', ''room_r1'']"
proof -
  have h: "open_connection (manager two_tabs) ''alice'' ''s1''"
    by code_simp
  have sid: "sid (alice_socket ''s1'') = ''s1''"
    by (simp add: alice_socket_def)
  obtain out ty' srv' where
    d: "disconnect (alice_socket ''s1'') (idle, two_tabs) = (out, ty', srv')"
    by (metis prod_cases3)
  have two: "getUserSocketCount ''alice'' (manager two_tabs) = 2"
    by code_simp
  have rooms2: "getRooms ''s2'' (manager two_tabs) = [''project_pA'', ''room_r1'']"
    by code_simp
  from disconnect_one_of_several [of two_tabs "''alice''" "alice_socket ''s1''", unfolded sid, OF h d]
    two rooms2
  have "getUserSocketCount ''alice'' (manager srv') = 1"
    and "getRooms ''s2'' (manager srv') = [''project_pA'', ''room_r1'']"
    by simp_all
  with h two show ?thesis
    by (simp add: d)
qed

text \<open>
  C6. A connection whose room set in the registry holds exactly the two project rooms
  \<open>p1\<close> and \<open>p2\<close> (in this order of joining) emits on disconnect exactly two
  \<open>user_offline\<close> events, one to each of the two rooms without the sender, carrying
  the project id that follows \<open>project_\<close> in the room's name; and every event the
  callback emits is addressed to a room without the sender, none to everyone.
\<close>

theorem disconnect_two_project_rooms:
  assumes "filter (\<lambda>r. startsWith r ''project_'') (getRooms (sid socket) (manager srv)) = [p1, p2]"
    and "disconnect socket (ty, srv) = (out, ty', srv')"
  shows "filter (\<lambda>e. event e = ''user_offline'') out =
           [Emit (RoomExcept p1 (sid socket)) ''user_offline'' (UserOffline (userId socket) (drop 8 p1)),
            Emit (RoomExcept p2 (sid socket)) ''user_offline'' (UserOffline (userId socket) (drop 8 p2))]
       \<and> (\<forall>e \<in> set out. \<exists>room. target_of e = RoomExcept room (sid socket))
       \<and> Everyone \<notin> target_of ` set out"
proof -
  note out = disconnect_out [OF assms(2)]
  have p: "startsWith p1 ''project_''" "startsWith p2 ''project_''"
  proof -
    have "p1 \<in> set (filter (\<lambda>r. startsWith r ''project_'') (getRooms (sid socket) (manager srv)))"
      "p2 \<in> set (filter (\<lambda>r. startsWith r ''project_'') (getRooms (sid socket) (manager srv)))"
      unfolding assms(1) by simp_all
    then show "startsWith p1 ''project_''" "startsWith p2 ''project_''" by simp_all
  qed
  have d: "replace_first ''project_'' p1 = drop 8 p1" "replace_first ''project_'' p2 = drop 8 p2"
    using replace_first_prefix [OF p(1)] replace_first_prefix [OF p(2)]
    by (simp_all add: eval_nat_numeral)
  have scoped: "\<forall>e \<in> set out. \<exists>room. target_of e = RoomExcept room (sid socket)"
    unfolding out by auto
  then have "Everyone \<notin> target_of ` set out" by force
  moreover have "filter (\<lambda>e. event e = ''user_offline'') out =
           [Emit (RoomExcept p1 (sid socket)) ''user_offline'' (UserOffline (userId socket) (drop 8 p1)),
            Emit (RoomExcept p2 (sid socket)) ''user_offline'' (UserOffline (userId socket) (drop 8 p2))]"
    unfolding out assms(1) by (simp add: d filter_map comp_def)
  ultimately show ?thesis using scoped by simp
qed

theorem disconnect_two_project_rooms_witness:
  "filter (\<lambda>r. startsWith r ''project_'') (getRooms ''s3'' (manager (snd bob_online)))
     = [''project_pA'', ''project_pB'']
   \<and> filter (\<lambda>e. event e = ''user_offline'')
        (fst (disconnect (fst bob_online) (idle, snd bob_online)))
     = [Emit (RoomExcept ''project_pA'' ''s3'') ''user_offline'' (UserOffline ''bob'' ''pA''),
        Emit (RoomExcept ''project_pB'' ''s3'') ''user_offline'' (UserOffline ''bob'' ''pB'')]"
proof -
  have s: "sid (fst bob_online) = ''s3''" "userId (fst bob_online) = ''bob''"
    by code_simp+
  have h: "filter (\<lambda>r. startsWith r ''project_'')
             (getRooms (sid (fst bob_online)) (manager (snd bob_online)))
           = [''project_pA'', ''project_pB'']"
    by code_simp
  obtain out ty' srv' where
    d: "disconnect (fst bob_online) (idle, snd bob_online) = (out, ty', srv')"
    by (metis prod_cases3)
  from disconnect_two_project_rooms [OF h d] h show ?thesis
    by (simp add: d s)
qed

subsection \<open>Room messages\<close>

lemma shift_old_keeps: "\<forall>t \<in> set ys. \<not> t < c \<Longrightarrow> shift_old c ys = ys"
  by (cases ys) auto

lemma shift_old_append:
  "\<forall>t \<in> set ys. \<not> t < c \<Longrightarrow> shift_old c (xs @ ys) = shift_old c xs @ ys"
  by (induction xs) (auto simp: shift_old_keeps)

lemma set_shift_old: "set (shift_old c xs) \<subseteq> set xs"
  by (induction xs) auto

lemma filter_shift_old:
  "c \<le> c' \<Longrightarrow> filter (\<lambda>t. c' < t) (shift_old c xs) = filter (\<lambda>t. c' < t) xs"
  by (induction xs) auto

lemma send_message_limited:
  "\<not> length (filter (\<lambda>t. t > now env - 60000) ts) < MESSAGE_RATE_LIMIT \<Longrightarrow>
     send_message socket env data (db, ts)
       = ([emit_error socket ''Message rate limit exceeded''], db, ts)"
  by (simp add: send_message_def Let_def)

lemma send_message_stamps:
  "length (filter (\<lambda>t. t > now env - 60000) ts) < MESSAGE_RATE_LIMIT \<Longrightarrow>
     snd (snd (send_message socket env data (db, ts)))
       = shift_old (now env - 60000) (ts @ [now env])"
  by (simp add: send_message_def Let_def split: option.split prod.split)

lemma send_message_no_rate_error:
  "length (filter (\<lambda>t. t > now env - 60000) ts) < MESSAGE_RATE_LIMIT \<Longrightarrow>
     emit_error socket ''Message rate limit exceeded''
       \<notin> set (fst (send_message socket env data (db, ts)))"
  by (simp add: send_message_def Let_def emit_error_def split: option.split prod.split)


lemma deliverableD:
  assumes "deliverable socket env d (db, ts)"
  obtains room body project roomRow member a where
    "length (filter (\<lambda>t. t > now env - 60000) ts) < MESSAGE_RATE_LIMIT"
    "roomId d = Some room" "content d = Some body" "projectId d = Some project"
    "truthy room" "truthy (trim body)" "truthy project"
    "query_single (room_lookup_fails env) (filter (\<lambda>r. room_id r = room) (chat_rooms db)) = Some roomRow"
    "query_single (membership_lookup_fails env)
       (filter (\<lambda>m. member_project_id m = project \<and> member_user_id m = userId socket)
          (project_members db)) = Some member"
    "query_single (insert_fails env) (filter (\<lambda>u. uid u = userId socket) (users db)) = Some a"
proof -
  from assms obtain room body project where
    f: "roomId d = Some room" "content d = Some body" "projectId d = Some project"
    by (auto simp: deliverable_def truthy_opt_def split: option.splits)
  from assms f have t: "truthy room" "truthy (trim body)" "truthy project"
    and l: "length (filter (\<lambda>t. t > now env - 60000) ts) < MESSAGE_RATE_LIMIT"
    by (simp_all add: deliverable_def truthy_opt_def)
  have eq1: "(\<lambda>r. Some (room_id r) = Some room) = (\<lambda>r. room_id r = room)" by auto
  have eq2: "(\<lambda>m. Some (member_project_id m) = Some project \<and> member_user_id m = userId socket)
      = (\<lambda>m. member_project_id m = project \<and> member_user_id m = userId socket)" by auto
  from assms f obtain roomRow member a where
    "query_single (room_lookup_fails env) (filter (\<lambda>r. room_id r = room) (chat_rooms db)) = Some roomRow"
    "query_single (membership_lookup_fails env)
       (filter (\<lambda>m. member_project_id m = project \<and> member_user_id m = userId socket)
          (project_members db)) = Some member"
    "query_single (insert_fails env) (filter (\<lambda>u. uid u = userId socket) (users db)) = Some a"
    by (auto simp: deliverable_def eq1 eq2)
  with f t l that show thesis by blast
qed

lemma send_message_delivered:
  assumes "length (filter (\<lambda>t. t > now env - 60000) ts) < MESSAGE_RATE_LIMIT"
    and "roomId d = Some room" "content d = Some body" "projectId d = Some project"
    and "truthy room" "truthy (trim body)" "truthy project"
    and "query_single (room_lookup_fails env) (filter (\<lambda>r. room_id r = room) (chat_rooms db)) = Some roomRow"
    and "query_single (membership_lookup_fails env)
       (filter (\<lambda>m. member_project_id m = project \<and> member_user_id m = userId socket)
          (project_members db)) = Some member"
    and "query_single (insert_fails env) (filter (\<lambda>u. uid u = userId socket) (users db)) = Some a"
  shows "\<exists>pm.
     send_message socket env (Some d) (db, ts) =
       ([Emit (RoomExcept (''room_'' @ room) (sid socket)) ''new_message''
           (NewMessage pm room (room_project_id roomRow)),
         Emit (ToSocket (sid socket)) ''message_sent'' (MessageSent pm room)],
        db\<lparr>chat_messages := chat_messages db @ [row pm]\<rparr>,
        shift_old (now env - 60000) (ts @ [now env]))
     \<and> row pm = \<lparr>message_id = new_id env, message_room_id = room,
                  message_user_id = userId socket,
                  message_type = (case messageType d of None \<Rightarrow> ''text'' | Some t \<Rightarrow> t),
                  message_content = take MAX_MESSAGE_LENGTH body,
                  reply_to_message_id = replyToMessageId d\<rparr>"
proof (cases "replyToMessageId d")
  case None
  with assms show ?thesis
    by (simp add: send_message_def Let_def insert_chat_message_def)
next
  case (Some replyId)
  with assms show ?thesis
    by (simp add: send_message_def Let_def insert_chat_message_def)
qed

lemma send_message_rejected:
  assumes "\<not> deliverable socket env d (db, ts)"
  shows "\<exists>m. send_message socket env (Some d) (db, ts)
            = ([emit_error socket m], db,
               if length (filter (\<lambda>t. t > now env - 60000) ts) < MESSAGE_RATE_LIMIT
               then shift_old (now env - 60000) (ts @ [now env]) else ts)"
proof (cases "length (filter (\<lambda>t. t > now env - 60000) ts) < MESSAGE_RATE_LIMIT")
  case False
  then show ?thesis by (auto simp: send_message_limited)
next
  case pass: True
  show ?thesis
  proof (cases "roomId d")
    case None
    with pass show ?thesis by (auto simp: send_message_def Let_def)
  next
    case room: (Some room)
    show ?thesis
    proof (cases "content d")
      case None
      with pass room show ?thesis by (auto simp: send_message_def Let_def)
    next
      case body: (Some body)
      show ?thesis
      proof (cases "projectId d")
        case None
        with pass room body show ?thesis by (auto simp: send_message_def Let_def)
      next
        case project: (Some project)
        show ?thesis
        proof (cases "truthy room \<and> truthy (trim body) \<and> truthy project")
          case False
          with pass room body project show ?thesis
            by (auto simp: send_message_def Let_def)
        next
          case valid: True
          show ?thesis
          proof (cases "query_single (room_lookup_fails env)
                          (filter (\<lambda>r. room_id r = room) (chat_rooms db))")
            case None
            with pass room body project valid show ?thesis
              by (auto simp: send_message_def Let_def)
          next
            case roomRow: (Some roomRow)
            show ?thesis
            proof (cases "query_single (membership_lookup_fails env)
                (filter (\<lambda>m. member_project_id m = project \<and> member_user_id m = userId socket)
                   (project_members db))")
              case None
              with pass room body project valid roomRow show ?thesis
                by (auto simp: send_message_def Let_def)
            next
              case member: (Some member)
              have eq1: "(\<lambda>r. Some (room_id r) = Some room) = (\<lambda>r. room_id r = room)" by auto
              have eq2: "(\<lambda>m. Some (member_project_id m) = Some project \<and> member_user_id m = userId socket)
                = (\<lambda>m. member_project_id m = project \<and> member_user_id m = userId socket)" by auto
              from assms pass room body project valid roomRow member
              have "query_single (insert_fails env)
                      (filter (\<lambda>u. uid u = userId socket) (users db)) = None"
                by (simp add: deliverable_def truthy_opt_def eq1 eq2)
              with pass room body project valid roomRow member show ?thesis
                by (auto simp: send_message_def Let_def insert_chat_message_def)
            qed
          qed
        qed
      qed
    qed
  qed
qed

text \<open>
  C10. When a \<open>send_message\<close> event passes the rate-limit check, the clock value is
  appended to the connection's window before the payload is looked at, whatever becomes
  of the event afterwards: the new window is the old one with the stamp appended and the
  stamps older than a minute shifted off its front. So for every later clock value
  within a minute of the event the window holds one recent stamp more than before, also
  when the event is then rejected (no payload, a field missing, room or membership not
  found, the insert failing), that is, answered with an error event and nothing stored.
\<close>

theorem rejected_send_consumes_slot:
  assumes "length (filter (\<lambda>t. t > now env - 60000) ts) < MESSAGE_RATE_LIMIT"
    and "send_message socket env data (db, ts) = (out, db', ts')"
  shows "ts' = shift_old (now env - 60000) (ts @ [now env])
     \<and> (\<forall>c. now env \<le> c \<and> c < now env + 60000 \<longrightarrow>
            filter (\<lambda>t. t > c - 60000) ts' = filter (\<lambda>t. t > c - 60000) ts @ [now env])
     \<and> ((case data of None \<Rightarrow> True | Some d \<Rightarrow> \<not> deliverable socket env d (db, ts)) \<longrightarrow>
            db' = db \<and> (\<exists>m. out = [emit_error socket m]))"
proof -
  have ts': "ts' = shift_old (now env - 60000) (ts @ [now env])"
    using send_message_stamps [OF assms(1), of socket data db] assms(2) by simp
  have slot: "filter (\<lambda>t. t > c - 60000) ts' = filter (\<lambda>t. t > c - 60000) ts @ [now env]"
    if "now env \<le> c" "c < now env + 60000" for c
  proof -
    from that have "now env - 60000 \<le> c - 60000" by simp
    then have "filter (\<lambda>t. c - 60000 < t) ts' = filter (\<lambda>t. c - 60000 < t) (ts @ [now env])"
      unfolding ts' by (rule filter_shift_old)
    with that show ?thesis by simp
  qed
  have rejected: "db' = db \<and> (\<exists>m. out = [emit_error socket m])"
    if "case data of None \<Rightarrow> True | Some d \<Rightarrow> \<not> deliverable socket env d (db, ts)"
  proof (cases data)
    case None
    with assms show ?thesis
      by (auto simp: send_message_def Let_def)
  next
    case (Some d)
    with that have "\<not> deliverable socket env d (db, ts)" by simp
    from send_message_rejected [OF this] assms(2) Some show ?thesis by auto
  qed
  from ts' slot rejected show ?thesis by blast
qed

theorem rejected_send_consumes_slot_witness:
  "length (filter (\<lambda>t. t > now (calm 1000 ''m1'') - 60000) []) < MESSAGE_RATE_LIMIT
   \<and> send_message (alice_socket ''s1'') (calm 1000 ''m1'') None (sample_store, [])
       = ([emit_error (alice_socket ''s1'') ''Failed to send message''], sample_store, [1000])
   \<and> filter (\<lambda>t. t > 2000 - 60000)
        (snd (snd (send_message (alice_socket ''s1'') (calm 1000 ''m1'') None (sample_store, []))))
       = [1000]
   \<and> fst (send_message (alice_socket ''s1'') (fst eleventh) (snd eleventh)
            (snd (send_messages (alice_socket ''s1'') ten_empty_sends (sample_store, []))))
       = [emit_error (alice_socket ''s1'') ''Message rate limit exceeded'']"
proof -
  have h: "length (filter (\<lambda>t. t > now (calm 1000 ''m1'') - 60000) []) < MESSAGE_RATE_LIMIT"
    by (simp add: MESSAGE_RATE_LIMIT_def)
  have run: "send_message (alice_socket ''s1'') (calm 1000 ''m1'') None (sample_store, [])
       = ([emit_error (alice_socket ''s1'') ''Failed to send message''], sample_store, [1000])"
    by (simp add: send_message_def calm_def MESSAGE_RATE_LIMIT_def)
  have n: "now (calm 1000 ''m1'') = 1000"
    by (simp add: calm_def)
  from rejected_send_consumes_slot [OF h run]
  have "\<forall>c. 1000 \<le> c \<and> c < 1000 + 60000 \<longrightarrow>
          filter (\<lambda>t. t > c - 60000) [1000] = filter (\<lambda>t. t > c - 60000) [] @ [1000::int]"
    unfolding n by blast
  then have "filter (\<lambda>t. t > 2000 - 60000) [1000] = [1000::int]"
    by simp
  moreover have "fst (send_message (alice_socket ''s1'') (fst eleventh) (snd eleventh)
            (snd (send_messages (alice_socket ''s1'') ten_empty_sends (sample_store, []))))
       = [emit_error (alice_socket ''s1'') ''Message rate limit exceeded'']"
    by code_simp
  ultimately show ?thesis using h run by simp
qed

lemma send_messages_window:
  assumes "\<forall>e \<in> set evs. (\<forall>t \<in> set old. t \<le> now (fst e) - 60000)
                         \<and> (\<forall>t \<in> set pushed. now (fst e) - 60000 < t)"
    and "\<forall>e \<in> set evs. \<forall>e' \<in> set evs. now (fst e) - now (fst e') < 60000"
    and "length pushed + length evs \<le> MESSAGE_RATE_LIMIT"
    and "send_messages socket evs (db, old @ pushed) = (outs, db', ts')"
  shows "emit_error socket ''Message rate limit exceeded'' \<notin> set (concat outs)
     \<and> (\<exists>old'. set old' \<subseteq> set old \<and> ts' = old' @ pushed @ map (now \<circ> fst) evs)"
  using assms
proof (induction evs arbitrary: old pushed db outs)
  case Nil
  then show ?case by auto
next
  case (Cons e evs)
  let ?c = "now (fst e) - 60000"
  have old: "\<forall>t \<in> set old. t \<le> ?c" and pushed: "\<forall>t \<in> set pushed. ?c < t"
    using Cons.prems(1) by auto
  have recent: "filter (\<lambda>t. t > ?c) (old @ pushed) = pushed"
  proof -
    have "filter (\<lambda>t. t > ?c) old = []" using old by (auto simp: filter_empty_conv)
    moreover have "filter (\<lambda>t. t > ?c) pushed = pushed" using pushed by (simp add: filter_id_conv)
    ultimately show ?thesis by simp
  qed
  have pass: "length (filter (\<lambda>t. t > ?c) (old @ pushed)) < MESSAGE_RATE_LIMIT"
    unfolding recent using Cons.prems(3) by simp
  obtain out db1 ts1 where step: "send_message socket (fst e) (snd e) (db, old @ pushed) = (out, db1, ts1)"
    by (metis prod_cases3)
  have "\<forall>t \<in> set (pushed @ [now (fst e)]). \<not> t < ?c" using pushed by auto
  then have "shift_old ?c (old @ pushed @ [now (fst e)]) = shift_old ?c old @ pushed @ [now (fst e)]"
    using shift_old_append [of "pushed @ [now (fst e)]" ?c old] by simp
  then have ts1: "ts1 = shift_old ?c old @ (pushed @ [now (fst e)])"
    using send_message_stamps [OF pass, of socket "snd e" db] step by simp
  have noerr: "emit_error socket ''Message rate limit exceeded'' \<notin> set out"
    using send_message_no_rate_error [OF pass, of socket "snd e" db] step by simp
  obtain outs' where rest: "send_messages socket evs (db1, shift_old ?c old @ (pushed @ [now (fst e)])) = (outs', db', ts')"
    and outs: "outs = out # outs'"
    using Cons.prems(4) step ts1 by (auto split: prod.splits)
  have sub: "set (shift_old ?c old) \<subseteq> set old" by (rule set_shift_old)
  have h1: "\<forall>e' \<in> set evs. (\<forall>t \<in> set (shift_old ?c old). t \<le> now (fst e') - 60000)
                         \<and> (\<forall>t \<in> set (pushed @ [now (fst e)]). now (fst e') - 60000 < t)"
  proof
    fix e' assume e': "e' \<in> set evs"
    have a: "\<forall>t \<in> set (shift_old ?c old). t \<le> now (fst e') - 60000"
      using Cons.prems(1) e' sub by auto
    have b: "\<forall>t \<in> set pushed. now (fst e') - 60000 < t"
      using Cons.prems(1) e' by auto
    have "now (fst e') - now (fst e) < 60000"
      using Cons.prems(2) e' by auto
    then have "now (fst e') - 60000 < now (fst e)" by simp
    with a b show "(\<forall>t \<in> set (shift_old ?c old). t \<le> now (fst e') - 60000)
                         \<and> (\<forall>t \<in> set (pushed @ [now (fst e)]). now (fst e') - 60000 < t)"
      by auto
  qed
  have h2: "\<forall>e \<in> set evs. \<forall>e' \<in> set evs. now (fst e) - now (fst e') < 60000"
    using Cons.prems(2) by auto
  have h3: "length (pushed @ [now (fst e)]) + length evs \<le> MESSAGE_RATE_LIMIT"
    using Cons.prems(3) by simp
  from Cons.IH [OF h1 h2 h3 rest]
  obtain old' where ih: "emit_error socket ''Message rate limit exceeded'' \<notin> set (concat outs')"
    "set old' \<subseteq> set (shift_old ?c old)" "ts' = old' @ (pushed @ [now (fst e)]) @ map (now \<circ> fst) evs"
    by blast
  from ih sub noerr outs show ?case by auto
qed

text \<open>
  C4. Ten \<open>send_message\<close> events of one connection followed by an eleventh, all eleven
  within one window of 60 seconds (any two of their clock values are less than 60000
  apart) and with no earlier stamp of the connection inside that window: none of the
  ten is answered with the rate-limit error and each leaves its stamp in the window,
  and the eleventh is answered with the rate-limit error alone, the store and the
  window staying as they were.
\<close>

theorem ten_pass_eleventh_rejected:
  assumes "length evs = MESSAGE_RATE_LIMIT"
    and "\<forall>a \<in> set (map (now \<circ> fst) (evs @ [e])).
           \<forall>b \<in> set (map (now \<circ> fst) (evs @ [e])). a - b < 60000"
    and "\<forall>t \<in> set ts. \<forall>a \<in> set (map (now \<circ> fst) (evs @ [e])). t \<le> a - 60000"
    and "send_messages socket evs (db, ts) = (outs, db1, ts1)"
  shows "emit_error socket ''Message rate limit exceeded'' \<notin> set (concat outs)
     \<and> (\<exists>old. ts1 = old @ map (now \<circ> fst) evs)
     \<and> send_message socket (fst e) (snd e) (db1, ts1)
         = ([emit_error socket ''Message rate limit exceeded''], db1, ts1)"
proof -
  have h1: "\<forall>x \<in> set evs. (\<forall>t \<in> set ts. t \<le> now (fst x) - 60000)
                         \<and> (\<forall>t \<in> set []. now (fst x) - 60000 < t)"
    using assms(3) by auto
  have h2: "\<forall>x \<in> set evs. \<forall>x' \<in> set evs. now (fst x) - now (fst x') < 60000"
    using assms(2) by auto
  have h3: "length ([]::int list) + length evs \<le> MESSAGE_RATE_LIMIT"
    using assms(1) by simp
  have run: "send_messages socket evs (db, ts @ []) = (outs, db1, ts1)"
    using assms(4) by simp
  from send_messages_window [OF h1 h2 h3 run]
  obtain old where noerr: "emit_error socket ''Message rate limit exceeded'' \<notin> set (concat outs)"
    and old: "set old \<subseteq> set ts" and ts1: "ts1 = old @ map (now \<circ> fst) evs"
    by auto
  let ?c = "now (fst e) - 60000"
  have "\<forall>t \<in> set old. t \<le> ?c"
    using old assms(3) by fastforce
  then have "filter (\<lambda>t. t > ?c) old = []"
    by (auto simp: filter_empty_conv)
  moreover have "\<forall>x \<in> set evs. now (fst e) - now (fst x) < 60000"
    using assms(2) by auto
  then have "filter (\<lambda>t. t > ?c) (map (now \<circ> fst) evs) = map (now \<circ> fst) evs"
    by (auto simp: filter_id_conv)
  ultimately have "length (filter (\<lambda>t. t > ?c) ts1) = MESSAGE_RATE_LIMIT"
    unfolding ts1 using assms(1) by simp
  then have "send_message socket (fst e) (snd e) (db1, ts1)
         = ([emit_error socket ''Message rate limit exceeded''], db1, ts1)"
    by (simp add: send_message_limited)
  with noerr ts1 show ?thesis by blast
qed

theorem ten_pass_eleventh_rejected_witness:
  "length ten_sends = MESSAGE_RATE_LIMIT
   \<and> map (now \<circ> fst) (ten_sends @ [eleventh])
       = [1000, 2000, 3000, 4000, 5000, 6000, 7000, 8000, 9000, 10000, 11000]
   \<and> length (chat_messages (fst (snd (send_messages (alice_socket ''s1'') ten_sends (sample_store, []))))) = 10
   \<and> send_message (alice_socket ''s1'') (fst eleventh) (snd eleventh)
        (snd (send_messages (alice_socket ''s1'') ten_sends (sample_store, [])))
       = ([emit_error (alice_socket ''s1'') ''Message rate limit exceeded''],
          snd (send_messages (alice_socket ''s1'') ten_sends (sample_store, [])))"
proof -
  have len: "length ten_sends = MESSAGE_RATE_LIMIT"
    by code_simp
  have times: "map (now \<circ> fst) (ten_sends @ [eleventh])
       = [1000, 2000, 3000, 4000, 5000, 6000, 7000, 8000, 9000, 10000, 11000]"
    by code_simp
  have window: "\<forall>a \<in> set (map (now \<circ> fst) (ten_sends @ [eleventh])).
           \<forall>b \<in> set (map (now \<circ> fst) (ten_sends @ [eleventh])). a - b < 60000"
    unfolding times by simp
  have old: "\<forall>t \<in> set []. \<forall>a \<in> set (map (now \<circ> fst) (ten_sends @ [eleventh])). t \<le> a - 60000"
    by simp
  obtain outs db1 ts1 where
    run: "send_messages (alice_socket ''s1'') ten_sends (sample_store, []) = (outs, db1, ts1)"
    by (metis prod_cases3)
  have stored: "length (chat_messages (fst (snd (send_messages (alice_socket ''s1'') ten_sends (sample_store, []))))) = 10"
    by code_simp
  from ten_pass_eleventh_rejected [OF len window old run]
  have "send_message (alice_socket ''s1'') (fst eleventh) (snd eleventh) (db1, ts1)
         = ([emit_error (alice_socket ''s1'') ''Message rate limit exceeded''], db1, ts1)"
    by simp
  with len times stored show ?thesis
    by (simp add: run)
qed

text \<open>
  C9. A \<open>send_message\<close> event whose content is longer than 5000 units: when the event
  goes through (see \<open>deliverable\<close>), the store gains exactly one row, and its content
  is the first 5000 units of the content supplied, 5000 units long; when it does not,
  the store is unchanged.
\<close>

theorem long_content_truncated:
  assumes "content d = Some body" and "length body > MAX_MESSAGE_LENGTH"
    and "send_message socket env (Some d) (db, ts) = (out, db', ts')"
  shows "if deliverable socket env d (db, ts)
         then \<exists>m. db' = db\<lparr>chat_messages := chat_messages db @ [m]\<rparr>
                \<and> message_content m = take 5000 body
                \<and> length (message_content m) = 5000
         else db' = db"
proof (cases "deliverable socket env d (db, ts)")
  case True
  then obtain room body' project roomRow member a where
    h: "length (filter (\<lambda>t. t > now env - 60000) ts) < MESSAGE_RATE_LIMIT"
    "roomId d = Some room" "content d = Some body'" "projectId d = Some project"
    "truthy room" "truthy (trim body')" "truthy project"
    "query_single (room_lookup_fails env) (filter (\<lambda>r. room_id r = room) (chat_rooms db)) = Some roomRow"
    "query_single (membership_lookup_fails env)
       (filter (\<lambda>m. member_project_id m = project \<and> member_user_id m = userId socket)
          (project_members db)) = Some member"
    "query_single (insert_fails env) (filter (\<lambda>u. uid u = userId socket) (users db)) = Some a"
    by (rule deliverableD)
  from h(3) assms(1) have b: "body' = body" by simp
  from send_message_delivered [OF h] obtain pm where
    eq: "send_message socket env (Some d) (db, ts) =
       ([Emit (RoomExcept (''room_'' @ room) (sid socket)) ''new_message''
           (NewMessage pm room (room_project_id roomRow)),
         Emit (ToSocket (sid socket)) ''message_sent'' (MessageSent pm room)],
        db\<lparr>chat_messages := chat_messages db @ [row pm]\<rparr>,
        shift_old (now env - 60000) (ts @ [now env]))"
    and r: "row pm = \<lparr>message_id = new_id env, message_room_id = room,
                  message_user_id = userId socket,
                  message_type = (case messageType d of None \<Rightarrow> ''text'' | Some t \<Rightarrow> t),
                  message_content = take MAX_MESSAGE_LENGTH body',
                  reply_to_message_id = replyToMessageId d\<rparr>"
    by (elim exE conjE)
  have sent: "fst (snd (send_message socket env (Some d) (db, ts)))
             = db\<lparr>chat_messages := chat_messages db @ [row pm]\<rparr>"
    unfolding eq by simp
  have pm: "message_content (row pm) = take MAX_MESSAGE_LENGTH body'"
    unfolding r by simp
  from sent assms(3) have "db' = db\<lparr>chat_messages := chat_messages db @ [row pm]\<rparr>"
    by simp
  moreover from pm b have "message_content (row pm) = take 5000 body"
    by (simp add: MAX_MESSAGE_LENGTH_def)
  moreover from this assms(2) have "length (message_content (row pm)) = 5000"
    by (simp add: MAX_MESSAGE_LENGTH_def)
  ultimately show ?thesis using True by auto
next
  case False
  with send_message_rejected [OF False] assms(3) show ?thesis by auto
qed

lemma trim_replicate_a: "trim (replicate (Suc n) CHR ''a'') = replicate (Suc n) CHR ''a''"
proof -
  have a: "CHR ''a'' \<notin> set js_whitespace" by (simp add: js_whitespace_def)
  have "dropWhile (\<lambda>c. c \<in> set js_whitespace) (replicate (Suc n) CHR ''a'') = replicate (Suc n) CHR ''a''"
    using a by simp
  moreover have "rev (replicate (Suc n) CHR ''a'') = replicate (Suc n) CHR ''a''"
    by (rule rev_replicate)
  ultimately show ?thesis
    unfolding trim_def by simp
qed

theorem long_content_truncated_witness:
  "deliverable (alice_socket ''s1'') (calm 1000 ''m1'') long_message (sample_store, [])
   \<and> content long_message = Some (replicate 5003 CHR ''a'')
   \<and> length (replicate 5003 CHR ''a'') > MAX_MESSAGE_LENGTH
   \<and> map message_content
        (chat_messages (fst (snd (send_message (alice_socket ''s1'') (calm 1000 ''m1'')
                                     (Some long_message) (sample_store, [])))))
       = [replicate 5000 CHR ''a'']"
proof -
  have c: "content long_message = Some (replicate 5003 CHR ''a'')"
    by (simp add: long_message_def plain_message_def)
  have l: "length (replicate 5003 CHR ''a'') > MAX_MESSAGE_LENGTH"
    by (simp add: MAX_MESSAGE_LENGTH_def)
  have t: "trim (replicate 5003 CHR ''a'') = replicate 5003 CHR ''a''"
    using trim_replicate_a [of 5002] by simp
  have d: "deliverable (alice_socket ''s1'') (calm 1000 ''m1'') long_message (sample_store, [])"
    by (simp add: deliverable_def long_message_def plain_message_def t calm_def alice_socket_def
        sample_store_def alice_def bob_def truthy_opt_def truthy_def MESSAGE_RATE_LIMIT_def
        query_single_def single_def)
  obtain out db' ts' where
    run: "send_message (alice_socket ''s1'') (calm 1000 ''m1'') (Some long_message) (sample_store, [])
            = (out, db', ts')"
    by (metis prod_cases3)
  from long_content_truncated [OF c l run] d obtain m where
    "db' = sample_store\<lparr>chat_messages := chat_messages sample_store @ [m]\<rparr>"
    "message_content m = take 5000 (replicate 5003 CHR ''a'')"
    by auto
  then have "map message_content (chat_messages db') = [replicate 5000 CHR ''a'']"
    by (simp add: sample_store_def)
  with c l d show ?thesis
    by (simp add: run)
qed

text \<open>
  C1 (a \<open>send_message\<close> to a room that exists but does not belong to the project id
  given, sent by a member of that project, is answered with an error event and nothing
  is stored) does not hold of the handler. It looks the room up by its id alone and the
  membership by the project id of the payload alone, and nowhere compares the room's
  project with that project id, although it reads the room's \<open>project_id\<close> and
  \<open>join_project_rooms\<close> takes the rooms of the project only. Here room \<open>r2\<close> belongs to
  project \<open>pB\<close>, Alice is a member of project \<open>pA\<close> only, and her message to room
  \<open>r2\<close> under project id \<open>pA\<close> is stored and broadcast to the room.
\<close>

theorem send_message_room_of_other_project:
  "map room_project_id (filter (\<lambda>r. room_id r = ''r2'') (chat_rooms sample_store)) = [''pB'']
   \<and> filter (\<lambda>m. member_user_id m = ''alice'') (project_members sample_store)
       = [\<lparr>member_project_id = ''pA'', member_user_id = ''alice''\<rparr>]
   \<and> send_message (alice_socket ''s1'') (calm 1000 ''m1'')
        (Some (plain_message ''r2'' ''pA'' ''hello'')) (sample_store, [])
       = ([Emit (RoomExcept ''room_r2'' ''s1'') ''new_message''
             (NewMessage
                \<lparr>row = \<lparr>message_id = ''m1'', message_room_id = ''r2'', message_user_id = ''alice'',
                         message_type = ''text'', message_content = ''hello'',
                         reply_to_message_id = None\<rparr>,
                 author = alice, reply_to = None\<rparr> ''r2'' ''pB''),
           Emit (ToSocket ''s1'') ''message_sent''
             (MessageSent
                \<lparr>row = \<lparr>message_id = ''m1'', message_room_id = ''r2'', message_user_id = ''alice'',
                         message_type = ''text'', message_content = ''hello'',
                         reply_to_message_id = None\<rparr>,
                 author = alice, reply_to = None\<rparr> ''r2'')],
          sample_store\<lparr>chat_messages :=
             [\<lparr>message_id = ''m1'', message_room_id = ''r2'', message_user_id = ''alice'',
               message_type = ''text'', message_content = ''hello'',
               reply_to_message_id = None\<rparr>]\<rparr>,
          [1000])"
  by (simp add: send_message_def plain_message_def calm_def alice_socket_def
        sample_store_def alice_def bob_def truthy_opt_def truthy_def MESSAGE_RATE_LIMIT_def
        MAX_MESSAGE_LENGTH_def query_single_def single_def insert_chat_message_def
        trim_def js_whitespace_def)

theorem send_message_room_of_other_project_witness:
  "map message_room_id
     (chat_messages (fst (snd (send_message (alice_socket ''s1'') (calm 1000 ''m1'')
        (Some (plain_message ''r2'' ''pA'' ''hello'')) (sample_store, []))))) = [''r2'']
   \<and> map room_project_id (filter (\<lambda>r. room_id r = ''r2'') (chat_rooms sample_store)) = [''pB'']"
  using send_message_room_of_other_project
  by (simp add: sample_store_def)

subsection \<open>Video signalling\<close>

text \<open>
  C8 does not hold as stated: the offer does not go to a single connection of the
  target user. \<open>forEach\<close> visits every open connection and has no way to stop at the
  first match. Bob has two connections in the call of room \<open>r1\<close>; Alice's offer to Bob
  is emitted twice, once to each of them.
\<close>

theorem offer_reaches_both_connections:
  "map sid (filter (\<lambda>c. userId c = ''bob'' \<and> Set_has (rooms c) (''video_'' @ ''r1''))
              both_tabs_in_call) = [''s3'', ''s4'']
   \<and> video_offer (alice_socket ''s1'') (Some (''r1'', ''bob'', ''sdp'')) both_tabs_in_call
        = [Emit (ToSocket ''s3'') ''video_offer'' (VideoOffer ''alice'' ''Alice'' ''a.png'' ''sdp'' ''r1''),
           Emit (ToSocket ''s4'') ''video_offer'' (VideoOffer ''alice'' ''Alice'' ''a.png'' ''sdp'' ''r1'')]"
  by code_simp

text \<open>
  C8, amended. \<open>video_offer\<close> goes through the open connections and forwards the offer
  to every connection whose user id is \<open>targetUserId\<close> and whose rooms include \<open>video_\<close>
  followed by the room id: one \<open>video_offer\<close> event to each of them, with the offer as
  it came, in the order of the scan, and nothing else. So every such connection is
  served, every emission is addressed to such a connection, and there are as many
  emissions as such connections (one when the target user has one connection in the
  call). When there is no such connection nothing is emitted at all, so no error
  either; a payload that is \<open>undefined\<close> emits nothing.
\<close>

theorem video_offer_reaches_every_match:
  "video_offer socket (Some (room, targetUserId, offer)) live
     = map (\<lambda>c. Emit (ToSocket (sid c)) ''video_offer''
                  (VideoOffer (userId socket) (username (user socket)) (avatar_url (user socket))
                     offer room))
         (filter (\<lambda>c. userId c = targetUserId \<and> Set_has (rooms c) (''video_'' @ room)) live)
   \<and> (\<forall>c \<in> set live. userId c = targetUserId \<and> Set_has (rooms c) (''video_'' @ room)
          \<longrightarrow> Emit (ToSocket (sid c)) ''video_offer''
                (VideoOffer (userId socket) (username (user socket)) (avatar_url (user socket))
                   offer room)
                \<in> set (video_offer socket (Some (room, targetUserId, offer)) live))
   \<and> (\<forall>e \<in> set (video_offer socket (Some (room, targetUserId, offer)) live).
          \<exists>c \<in> set live. userId c = targetUserId \<and> Set_has (rooms c) (''video_'' @ room)
             \<and> e = Emit (ToSocket (sid c)) ''video_offer''
                      (VideoOffer (userId socket) (username (user socket))
                         (avatar_url (user socket)) offer room))
   \<and> length (video_offer socket (Some (room, targetUserId, offer)) live)
        = length (filter (\<lambda>c. userId c = targetUserId \<and> Set_has (rooms c) (''video_'' @ room)) live)
   \<and> (filter (\<lambda>c. userId c = targetUserId \<and> Set_has (rooms c) (''video_'' @ room)) live = []
        \<longrightarrow> video_offer socket (Some (room, targetUserId, offer)) live = [])
   \<and> video_offer socket None live = []"
proof -
  have run: "video_offer socket (Some (room, targetUserId, offer)) live
     = map (\<lambda>c. Emit (ToSocket (sid c)) ''video_offer''
                  (VideoOffer (userId socket) (username (user socket)) (avatar_url (user socket))
                     offer room))
         (filter (\<lambda>c. userId c = targetUserId \<and> Set_has (rooms c) (''video_'' @ room)) live)"
    by (simp add: video_offer_def)
  have none: "video_offer socket None live = []"
    by (simp add: video_offer_def)
  show ?thesis
    unfolding run none by auto
qed

theorem video_offer_reaches_every_match_witness:
  "join ''video_r1'' (bob_socket ''s4'') \<in> set both_tabs_in_call
   \<and> userId (join ''video_r1'' (bob_socket ''s4'')) = ''bob''
   \<and> Set_has (rooms (join ''video_r1'' (bob_socket ''s4''))) (''video_'' @ ''r1'')
   \<and> Emit (ToSocket ''s4'') ''video_offer'' (VideoOffer ''alice'' ''Alice'' ''a.png'' ''sdp'' ''r1'')
        \<in> set (video_offer (alice_socket ''s1'') (Some (''r1'', ''bob'', ''sdp'')) both_tabs_in_call)
   \<and> length (video_offer (alice_socket ''s1'') (Some (''r1'', ''bob'', ''sdp'')) both_tabs_in_call) = 2
   \<and> filter (\<lambda>c. userId c = ''carol'' \<and> Set_has (rooms c) (''video_'' @ ''r1'')) both_tabs_in_call = []
   \<and> video_offer (alice_socket ''s1'') (Some (''r1'', ''carol'', ''sdp'')) both_tabs_in_call = []"
proof -
  have m: "join ''video_r1'' (bob_socket ''s4'') \<in> set both_tabs_in_call"
    "userId (join ''video_r1'' (bob_socket ''s4'')) = ''bob''"
    "Set_has (rooms (join ''video_r1'' (bob_socket ''s4''))) (''video_'' @ ''r1'')"
    by code_simp+
  have s: "sid (join ''video_r1'' (bob_socket ''s4'')) = ''s4''"
    "userId (alice_socket ''s1'') = ''alice''" "username (user (alice_socket ''s1'')) = ''Alice''"
    "avatar_url (user (alice_socket ''s1'')) = ''a.png''"
    by code_simp+
  have two: "length (filter (\<lambda>c. userId c = ''bob'' \<and> Set_has (rooms c) (''video_'' @ ''r1''))
                       both_tabs_in_call) = 2"
    by code_simp
  have none: "filter (\<lambda>c. userId c = ''carol'' \<and> Set_has (rooms c) (''video_'' @ ''r1''))
                both_tabs_in_call = []"
    by code_simp
  note bob = video_offer_reaches_every_match
    [of "alice_socket ''s1''" "''r1''" "''bob''" "''sdp''" both_tabs_in_call]
  note carol = video_offer_reaches_every_match
    [of "alice_socket ''s1''" "''r1''" "''carol''" "''sdp''" both_tabs_in_call]
  from bob m have "Emit (ToSocket (sid (join ''video_r1'' (bob_socket ''s4'')))) ''video_offer''
        (VideoOffer (userId (alice_socket ''s1'')) (username (user (alice_socket ''s1'')))
           (avatar_url (user (alice_socket ''s1''))) ''sdp'' ''r1'')
        \<in> set (video_offer (alice_socket ''s1'') (Some (''r1'', ''bob'', ''sdp'')) both_tabs_in_call)"
    by blast
  then have a: "Emit (ToSocket ''s4'') ''video_offer'' (VideoOffer ''alice'' ''Alice'' ''a.png'' ''sdp'' ''r1'')
        \<in> set (video_offer (alice_socket ''s1'') (Some (''r1'', ''bob'', ''sdp'')) both_tabs_in_call)"
    unfolding s .
  from bob
  have "length (video_offer (alice_socket ''s1'') (Some (''r1'', ''bob'', ''sdp'')) both_tabs_in_call)
        = length (filter (\<lambda>c. userId c = ''bob'' \<and> Set_has (rooms c) (''video_'' @ ''r1''))
                    both_tabs_in_call)"
    by blast
  then have b: "length (video_offer (alice_socket ''s1'') (Some (''r1'', ''bob'', ''sdp'')) both_tabs_in_call) = 2"
    unfolding two .
  from carol none
  have c: "video_offer (alice_socket ''s1'') (Some (''r1'', ''carol'', ''sdp'')) both_tabs_in_call = []"
    by blast
  from m a b none c show ?thesis
    by blast
qed

subsection \<open>Friend messages\<close>

text \<open>
  C5 (with an accepted friendship row between sender and recipient, in either
  direction, the message is stored and delivered) does not hold of the code. The
  friendship request of the handler is written for both directions and ends in
  \<open>.single()\<close>, which answers with an error as soon as it selects two rows. With an
  accepted row from Alice to Bob and another from Bob to Alice, Alice's message to Bob
  is answered with \<open>Not friends with this user\<close> and nothing is stored. The same event
  is stored and delivered when only the row from Alice to Bob is there.
\<close>

theorem friends_both_ways_refused:
  "filter (accepted_between ''alice'' ''bob'') (user_friendships mutual_store)
     = [\<lparr>requester_id = ''alice'', addressee_id = ''bob'', status = ''accepted''\<rparr>,
        \<lparr>requester_id = ''bob'', addressee_id = ''alice'', status = ''accepted''\<rparr>]
   \<and> send_friend_message (alice_socket ''s1'') no_failure (Some (Some ''bob'', Some ''hi'')) mutual_store
       = ([emit_error (alice_socket ''s1'') ''Not friends with this user''], mutual_store)
   \<and> filter (accepted_between ''alice'' ''bob'') (user_friendships sample_store)
     = [\<lparr>requester_id = ''alice'', addressee_id = ''bob'', status = ''accepted''\<rparr>]
   \<and> send_friend_message (alice_socket ''s1'') no_failure (Some (Some ''bob'', Some ''hi'')) sample_store
       = ([Emit (ToRoom ''user_bob'') ''friend_message''
             (FriendMessage ''alice'' \<lparr>fm_id = ''f1'', sender_id = ''alice'', recipient_id = ''bob'',
                                       fm_content = ''hi''\<rparr>),
           Emit (ToSocket ''s1'') ''friend_message_sent''
             (FriendMessageSent \<lparr>fm_id = ''f1'', sender_id = ''alice'', recipient_id = ''bob'',
                                  fm_content = ''hi''\<rparr>)],
          sample_store\<lparr>friend_messages :=
             [\<lparr>fm_id = ''f1'', sender_id = ''alice'', recipient_id = ''bob'', fm_content = ''hi''\<rparr>]\<rparr>)"
  by (simp add: send_friend_message_def accepted_between_def mutual_store_def sample_store_def
      no_failure_def alice_socket_def truthy_def trim_def js_whitespace_def
      query_single_def single_def Let_def)

theorem friends_both_ways_refused_witness:
  "map event (fst (send_friend_message (alice_socket ''s1'') no_failure
                     (Some (Some ''bob'', Some ''hi'')) mutual_store)) = [''error'']
   \<and> friend_messages (snd (send_friend_message (alice_socket ''s1'') no_failure
                              (Some (Some ''bob'', Some ''hi'')) mutual_store)) = []
   \<and> length (filter (accepted_between ''alice'' ''bob'') (user_friendships mutual_store)) = 2"
  using friends_both_ways_refused
  by (simp add: emit_error_def mutual_store_def sample_store_def)

subsection \<open>Handshakes\<close>



lemma authenticate_resolve:
  "authenticate jwt_verify db a srv =
     (case resolve jwt_verify db a (userCache srv) of
        Inl reason \<Rightarrow> (Inl reason, srv)
      | Inr (u, cache) \<Rightarrow>
          if getUserSocketCount (uid (cached_profile u)) (manager srv) \<ge> MAX_CONNECTIONS_PER_USER
          then (Inl ''Maximum connections exceeded'', srv\<lparr>userCache := cache\<rparr>)
          else (Inr u,
                srv\<lparr>userCache := cache,
                    activeConnections := (activeConnections srv)
                      (uid (cached_profile u) \<mapsto>
                         int (getUserSocketCount (uid (cached_profile u)) (manager srv)) + 1)\<rparr>))"
proof (cases "token a")
  case None
  then show ?thesis by (simp add: authenticate_def resolve_def)
next
  case tok: (Some tok)
  show ?thesis
  proof (cases "truthy tok")
    case False
    with tok show ?thesis by (simp add: authenticate_def resolve_def)
  next
    case True
    show ?thesis
    proof (cases "jwt_verify tok")
      case None
      with tok True show ?thesis by (simp add: authenticate_def resolve_def)
    next
      case d: (Some d)
      show ?thesis
      proof (cases "if truthy_opt (token_id d) then token_id d else token_userId d")
        case None
        with tok True d show ?thesis by (simp add: authenticate_def resolve_def)
      next
        case u: (Some u)
        show ?thesis
        proof (cases "truthy u")
          case False
          with tok True d u show ?thesis by (simp add: authenticate_def resolve_def)
        next
          case tu: True
          show ?thesis
          proof (cases "case userCache srv u of None \<Rightarrow> None
                        | Some c \<Rightarrow> if checked_at a - cachedAt c > USER_CACHE_TTL then None else Some c")
            case (Some c)
            with tok True d u tu show ?thesis
              by (simp add: authenticate_def resolve_def Let_def)
          next
            case miss: None
            show ?thesis
            proof (cases "query_single (profile_lookup_fails a) (filter (\<lambda>x. uid x = u) (users db))")
              case None
              with tok True d u tu miss show ?thesis
                by (simp add: authenticate_def resolve_def Let_def)
            next
              case (Some p)
              with tok True d u tu miss show ?thesis
                by (simp add: authenticate_def resolve_def Let_def)
            qed
          qed
        qed
      qed
    qed
  qed
qed




lemma authenticate_at_cap:
  assumes "resolve jwt_verify db a (userCache srv) = Inr (c, cache)"
    and "MAX_CONNECTIONS_PER_USER \<le> getUserSocketCount (uid (cached_profile c)) (manager srv)"
  shows "authenticate jwt_verify db a srv
           = (Inl ''Maximum connections exceeded'', srv\<lparr>userCache := cache\<rparr>)"
  using assms by (simp add: authenticate_resolve)







subsection \<open>Typing indicators\<close>

text \<open>
  C2 (a second \<open>typing_start\<close> within 5 seconds re-arms the timer and does not
  broadcast again, so that one \<open>user_typing\<close> is emitted in all) does not hold as
  stated: two \<open>typing_start\<close> signals for one room one second apart emit
  \<open>user_typing\<close> twice. The handler clears the timer when the room is in
  \<open>typingTimeouts\<close> and then emits and arms in every case.
\<close>

theorem second_typing_start_emits_again:
  "fst (typing_run (alice_socket ''s1'')
          [(0, TypingStart ''r1'' ''pA''), (1000, TypingStart ''r1'' ''pA'')] idle)
     = [Emit (RoomExcept ''room_r1'' ''s1'') ''user_typing'' (UserTyping ''alice'' ''Alice'' ''r1'' ''pA''),
        Emit (RoomExcept ''room_r1'' ''s1'') ''user_typing'' (UserTyping ''alice'' ''Alice'' ''r1'' ''pA'')]
   \<and> length (filter (\<lambda>e. event e = ''user_typing'')
        (fst (typing_run (alice_socket ''s1'')
               [(0, TypingStart ''r1'' ''pA''), (1000, TypingStart ''r1'' ''pA'')] idle))) \<noteq> 1"
  by code_simp

text \<open>
  C2, amended. A \<open>typing_start\<close> signal for a room that is in \<open>typingTimeouts\<close> cancels
  the pending timer of the room, arms a new one due 5 seconds later, and broadcasts
  \<open>user_typing\<close> to the room again. On a fresh connection, two signals for one room less
  than 5 seconds apart emit \<open>user_typing\<close> twice and leave one timer pending, due 5
  seconds after the second signal; when it expires, one \<open>user_stopped_typing\<close> follows.
\<close>

theorem typing_start_rearms_and_rebroadcasts:
  "(\<forall>(ty::typing) h clock. map_of (typingTimeouts ty) room = Some h \<longrightarrow>
      typing_start socket clock room project ty =
        ([Emit (RoomExcept (''room_'' @ room) (sid socket)) ''user_typing''
            (UserTyping (userId socket) (username (user socket)) room project)],
         ty\<lparr>typingTimeouts := AList.update room (next_handle ty) (typingTimeouts ty),
            timers := clearTimeout h (timers ty)
                      @ [\<lparr>handle = next_handle ty, due = clock + 5000,
                          timer_roomId = room, timer_projectId = project\<rparr>],
            next_handle := Suc (next_handle ty)\<rparr>))
   \<and> (\<forall>t d. 0 \<le> d \<and> d < 5000 \<longrightarrow>
        typing_run socket [(t, TypingStart room project), (t + d, TypingStart room project)] idle
          = ([Emit (RoomExcept (''room_'' @ room) (sid socket)) ''user_typing''
                (UserTyping (userId socket) (username (user socket)) room project),
              Emit (RoomExcept (''room_'' @ room) (sid socket)) ''user_typing''
                (UserTyping (userId socket) (username (user socket)) room project)],
             \<lparr>typingTimeouts = [(room, 1)],
              timers = [\<lparr>handle = 1, due = t + d + 5000, timer_roomId = room,
                         timer_projectId = project\<rparr>],
              next_handle = 2\<rparr>)
        \<and> typing_run socket [(t, TypingStart room project), (t + d, TypingStart room project),
                              (t + d + 5000, Nothing)] idle
          = ([Emit (RoomExcept (''room_'' @ room) (sid socket)) ''user_typing''
                (UserTyping (userId socket) (username (user socket)) room project),
              Emit (RoomExcept (''room_'' @ room) (sid socket)) ''user_typing''
                (UserTyping (userId socket) (username (user socket)) room project),
              Emit (RoomExcept (''room_'' @ room) (sid socket)) ''user_stopped_typing''
                (UserStoppedTyping (userId socket) room project)],
             \<lparr>typingTimeouts = [], timers = [], next_handle = 2\<rparr>))"
proof (intro conjI allI impI)
  fix ty :: typing and h clock
  assume "map_of (typingTimeouts ty) room = Some h"
  then show "typing_start socket clock room project ty =
        ([Emit (RoomExcept (''room_'' @ room) (sid socket)) ''user_typing''
            (UserTyping (userId socket) (username (user socket)) room project)],
         ty\<lparr>typingTimeouts := AList.update room (next_handle ty) (typingTimeouts ty),
            timers := clearTimeout h (timers ty)
                      @ [\<lparr>handle = next_handle ty, due = clock + 5000,
                          timer_roomId = room, timer_projectId = project\<rparr>],
            next_handle := Suc (next_handle ty)\<rparr>)"
    by (simp add: typing_start_def Let_def)
next
  fix t d :: int
  assume d: "0 \<le> d \<and> d < 5000"
  then show "typing_run socket [(t, TypingStart room project), (t + d, TypingStart room project)] idle
          = ([Emit (RoomExcept (''room_'' @ room) (sid socket)) ''user_typing''
                (UserTyping (userId socket) (username (user socket)) room project),
              Emit (RoomExcept (''room_'' @ room) (sid socket)) ''user_typing''
                (UserTyping (userId socket) (username (user socket)) room project)],
             \<lparr>typingTimeouts = [(room, 1)],
              timers = [\<lparr>handle = 1, due = t + d + 5000, timer_roomId = room,
                         timer_projectId = project\<rparr>],
              next_handle = 2\<rparr>)"
    by (simp add: typing_start_def advance_def idle_def typing_expired_def clearTimeout_def Let_def)
  from d show "typing_run socket [(t, TypingStart room project), (t + d, TypingStart room project),
                              (t + d + 5000, Nothing)] idle
          = ([Emit (RoomExcept (''room_'' @ room) (sid socket)) ''user_typing''
                (UserTyping (userId socket) (username (user socket)) room project),
              Emit (RoomExcept (''room_'' @ room) (sid socket)) ''user_typing''
                (UserTyping (userId socket) (username (user socket)) room project),
              Emit (RoomExcept (''room_'' @ room) (sid socket)) ''user_stopped_typing''
                (UserStoppedTyping (userId socket) room project)],
             \<lparr>typingTimeouts = [], timers = [], next_handle = 2\<rparr>)"
    by (simp add: typing_start_def advance_def idle_def typing_expired_def clearTimeout_def Let_def)
qed

theorem typing_start_rearms_and_rebroadcasts_witness:
  "map_of (typingTimeouts (snd (typing_start (alice_socket ''s1'') 0 ''r1'' ''pA'' idle))) ''r1'' = Some 0
   \<and> timers (snd (typing_start (alice_socket ''s1'') 0 ''r1'' ''pA'' idle))
       = [\<lparr>handle = 0, due = 5000, timer_roomId = ''r1'', timer_projectId = ''pA''\<rparr>]
   \<and> typing_start (alice_socket ''s1'') 1000 ''r1'' ''pA''
        (snd (typing_start (alice_socket ''s1'') 0 ''r1'' ''pA'' idle))
       = ([Emit (RoomExcept ''room_r1'' ''s1'') ''user_typing''
             (UserTyping ''alice'' ''Alice'' ''r1'' ''pA'')],
          \<lparr>typingTimeouts = [(''r1'', 1)],
           timers = [\<lparr>handle = 1, due = 6000, timer_roomId = ''r1'', timer_projectId = ''pA''\<rparr>],
           next_handle = 2\<rparr>)
   \<and> (0::int) \<le> 1000 \<and> (1000::int) < 5000
   \<and> fst (typing_run (alice_socket ''s1'')
             [(0, TypingStart ''r1'' ''pA''), (1000, TypingStart ''r1'' ''pA''),
              (6000, Nothing)] idle)
       = [Emit (RoomExcept ''room_r1'' ''s1'') ''user_typing'' (UserTyping ''alice'' ''Alice'' ''r1'' ''pA''),
          Emit (RoomExcept ''room_r1'' ''s1'') ''user_typing'' (UserTyping ''alice'' ''Alice'' ''r1'' ''pA''),
          Emit (RoomExcept ''room_r1'' ''s1'') ''user_stopped_typing''
            (UserStoppedTyping ''alice'' ''r1'' ''pA'')]"
proof -
  let ?first = "snd (typing_start (alice_socket ''s1'') 0 ''r1'' ''pA'' idle)"
  have f: "?first = \<lparr>typingTimeouts = [(''r1'', 0)],
                      timers = [\<lparr>handle = 0, due = 5000, timer_roomId = ''r1'', timer_projectId = ''pA''\<rparr>],
                      next_handle = 1\<rparr>"
    by (simp add: typing_start_def idle_def Let_def)
  have h: "map_of (typingTimeouts ?first) ''r1'' = Some 0"
    unfolding f by simp
  have s: "sid (alice_socket ''s1'') = ''s1''" "userId (alice_socket ''s1'') = ''alice''"
    "username (user (alice_socket ''s1'')) = ''Alice''"
    by (simp_all add: alice_socket_def alice_def)
  have d: "(0::int) \<le> 1000 \<and> (1000::int) < 5000" by simp
  note t = typing_start_rearms_and_rebroadcasts [of "''r1''" "alice_socket ''s1''" "''pA''"]
  from t h have step: "typing_start (alice_socket ''s1'') 1000 ''r1'' ''pA'' ?first
       = ([Emit (RoomExcept (''room_'' @ ''r1'') (sid (alice_socket ''s1''))) ''user_typing''
            (UserTyping (userId (alice_socket ''s1'')) (username (user (alice_socket ''s1''))) ''r1'' ''pA'')],
         ?first\<lparr>typingTimeouts := AList.update ''r1'' (next_handle ?first) (typingTimeouts ?first),
            timers := clearTimeout 0 (timers ?first)
                      @ [\<lparr>handle = next_handle ?first, due = 1000 + 5000,
                          timer_roomId = ''r1'', timer_projectId = ''pA''\<rparr>],
            next_handle := Suc (next_handle ?first)\<rparr>)"
    by blast
  from t d have run: "typing_run (alice_socket ''s1'')
             [(0, TypingStart ''r1'' ''pA''), (0 + 1000, TypingStart ''r1'' ''pA''),
              (0 + 1000 + 5000, Nothing)] idle
          = ([Emit (RoomExcept (''room_'' @ ''r1'') (sid (alice_socket ''s1''))) ''user_typing''
                (UserTyping (userId (alice_socket ''s1'')) (username (user (alice_socket ''s1''))) ''r1'' ''pA''),
              Emit (RoomExcept (''room_'' @ ''r1'') (sid (alice_socket ''s1''))) ''user_typing''
                (UserTyping (userId (alice_socket ''s1'')) (username (user (alice_socket ''s1''))) ''r1'' ''pA''),
              Emit (RoomExcept (''room_'' @ ''r1'') (sid (alice_socket ''s1''))) ''user_stopped_typing''
                (UserStoppedTyping (userId (alice_socket ''s1'')) ''r1'' ''pA'')],
             \<lparr>typingTimeouts = [], timers = [], next_handle = 2\<rparr>)"
    by blast
  have step': "typing_start (alice_socket ''s1'') 1000 ''r1'' ''pA'' ?first
       = ([Emit (RoomExcept ''room_r1'' ''s1'') ''user_typing''
             (UserTyping ''alice'' ''Alice'' ''r1'' ''pA'')],
          \<lparr>typingTimeouts = [(''r1'', 1)],
           timers = [\<lparr>handle = 1, due = 6000, timer_roomId = ''r1'', timer_projectId = ''pA''\<rparr>],
           next_handle = 2\<rparr>)"
    unfolding step unfolding f by (simp add: s clearTimeout_def)
  from run have run': "typing_run (alice_socket ''s1'')
             [(0, TypingStart ''r1'' ''pA''), (1000, TypingStart ''r1'' ''pA''),
              (6000, Nothing)] idle
          = ([Emit (RoomExcept ''room_r1'' ''s1'') ''user_typing'' (UserTyping ''alice'' ''Alice'' ''r1'' ''pA''),
              Emit (RoomExcept ''room_r1'' ''s1'') ''user_typing'' (UserTyping ''alice'' ''Alice'' ''r1'' ''pA''),
              Emit (RoomExcept ''room_r1'' ''s1'') ''user_stopped_typing''
                (UserStoppedTyping ''alice'' ''r1'' ''pA'')],
             \<lparr>typingTimeouts = [], timers = [], next_handle = 2\<rparr>)"
    by (simp add: s)
  have tm: "timers ?first
       = [\<lparr>handle = 0, due = 5000, timer_roomId = ''r1'', timer_projectId = ''pA''\<rparr>]"
    unfolding f by simp
  from h tm step' d show ?thesis
    unfolding run' by simp
qed


end
